theory Spec2Isabelle
  imports Complex_Main "HOL-Library.Word" "HOL-Library.Monad_Syntax"
begin

unbundle bit_operations_syntax

section \<open>Data model (msg_def.h, central_analyzer.c)\<close>

type_synonym u8 = "8 word"
type_synonym u16 = "16 word"
type_synonym u32 = "32 word"
type_synonym u64 = "64 word"

text \<open>
  C \<open>int\<close> values (temperature, humidity, return codes) are modelled as \<open>int\<close>: the
  program only stores and compares them, it never does arithmetic that could overflow.
  The \<open>uint8_t\<close> flags are \<open>8 word\<close>; a C condition \<open>if (x)\<close> is \<open>x \<noteq> 0\<close>.
\<close>

definition MSG_TYPE_SENSOR_DATA :: u16 where "MSG_TYPE_SENSOR_DATA = 1"

definition ALERT_LEVEL_INFO :: u8 where "ALERT_LEVEL_INFO = 0"
definition ALERT_LEVEL_WARNING :: u8 where "ALERT_LEVEL_WARNING = 1"
definition ALERT_LEVEL_CRITICAL :: u8 where "ALERT_LEVEL_CRITICAL = 2"

definition ALERT_TYPE_TEMP_HIGH :: u8 where "ALERT_TYPE_TEMP_HIGH = 1"
definition ALERT_TYPE_TEMP_LOW :: u8 where "ALERT_TYPE_TEMP_LOW = 2"
definition ALERT_TYPE_GAS_DETECTED :: u8 where "ALERT_TYPE_GAS_DETECTED = 3"
definition ALERT_TYPE_MOTION :: u8 where "ALERT_TYPE_MOTION = 4"
definition ALERT_TYPE_DOOR_CLOSED :: u8 where "ALERT_TYPE_DOOR_CLOSED = 5"
definition ALERT_TYPE_DOOR_OPEN :: u8 where "ALERT_TYPE_DOOR_OPEN = 6"

text \<open>
  The pulse codes come from \<open>alert_pulse_def.h\<close>, which is not part of the sources at
  hand; only the four names used by \<open>central_analyzer.c\<close> and \<open>alert_mgr.c\<close> are known,
  so they are an enumeration here.
\<close>

datatype pulse_code = HIGH_TEMP | HIGH_CO2 | MOTION_DETECTED | DOOR_OPEN

record threshold_config_t =
  temp_high_threshold :: int
  temp_low_threshold :: int
  humidity_high_threshold :: int
  humidity_low_threshold :: int
  door_closed_dist_cm :: u16

definition thresholds :: threshold_config_t where
  "thresholds = \<lparr>temp_high_threshold = 30, temp_low_threshold = 15,
     humidity_high_threshold = 80, humidity_low_threshold = 20,
     door_closed_dist_cm = 10\<rparr>"

record shared_sensor_data_t =
  temperature :: int
  humidity :: int
  temp_sensor_valid :: u8
  gas_detected :: u8
  gas_sensor_valid :: u8
  motion_detected :: u8
  motion_sensor_valid :: u8
  distance_cm :: u16
  door_closed :: u8
  ultrasonic_valid :: u8
  alert_level :: u8

text \<open>\<open>static shared_sensor_data_t g_sensor_data = {0}\<close>\<close>

definition g_sensor_data_init :: shared_sensor_data_t where
  "g_sensor_data_init = \<lparr>temperature = 0, humidity = 0, temp_sensor_valid = 0,
     gas_detected = 0, gas_sensor_valid = 0, motion_detected = 0, motion_sensor_valid = 0,
     distance_cm = 0, door_closed = 0, ultrasonic_valid = 0, alert_level = 0\<rparr>"

text \<open>
  The outbound message \<open>sensor_data_msg_t\<close>. Its fields have the names of the shared
  structure's fields in the source; here they carry the prefix \<open>msg_\<close>.
\<close>

record sensor_data_msg_t =
  msg_type :: u16
  msg_timestamp :: int
  msg_temperature :: int
  msg_humidity :: int
  msg_temp_sensor_valid :: u8
  msg_gas_detected :: u8
  msg_gas_sensor_valid :: u8
  msg_motion_detected :: u8
  msg_motion_sensor_valid :: u8
  msg_distance_cm :: u16
  msg_door_closed :: u8
  msg_ultrasonic_valid :: u8
  msg_alert_level :: u8
  msg_sequence_num :: u32

text \<open>
  The function-local \<open>static\<close> variables of \<open>check_thresholds_and_alert\<close>, which keep
  their values from one call to the next.
\<close>

record alert_statics =
  last_alert_level :: u8
  last_motion :: u8
  last_door_state :: u8

definition alert_statics_init :: alert_statics where
  "alert_statics_init =
     \<lparr>last_alert_level = ALERT_LEVEL_INFO, last_motion = 0, last_door_state = 0\<rparr>"

text \<open>
  What a tick of the aggregator does to the outside, in program order: the mutex
  operations, the calls of \<open>send_alert\<close> (type, level, value, description) and
  \<open>send_pulse\<close> (code, level), and the delivery of the snapshot message (lines 318 to
  337: \<open>MsgSend\<close> to the dashboard writer, or the printed "simulated send").
\<close>

datatype event =
  MutexLock
  | MutexUnlock
  | SendAlert u8 u8 int string
  | SendPulse pulse_code u8
  | SendData sensor_data_msg_t

section \<open>The alert engine: \<open>check_thresholds_and_alert\<close>\<close>

text \<open>
  The function is a sequence of four blocks, one per category, that share the local
  variable \<open>current_alert_level\<close>. Each block is a definition of its own here: it takes
  the value of \<open>current_alert_level\<close> before the block and yields the events it sends
  and the value after the block. The motion and door blocks also yield the new value of
  their static latch.
\<close>

text \<open>\<open>// Check temperature thresholds\<close>\<close>

definition check_temperature ::
  "threshold_config_t \<Rightarrow> shared_sensor_data_t \<Rightarrow> u8 \<Rightarrow> event list \<times> u8" where
  "check_temperature th d current_alert_level =
     (if temp_sensor_valid d \<noteq> 0 then
        (if temperature d > temp_high_threshold th then
           ([SendAlert ALERT_TYPE_TEMP_HIGH ALERT_LEVEL_WARNING (temperature d)
               ''Temperature above threshold'',
             SendPulse HIGH_TEMP ALERT_LEVEL_WARNING], ALERT_LEVEL_WARNING)
         else if temperature d < temp_low_threshold th then
           ([SendAlert ALERT_TYPE_TEMP_LOW ALERT_LEVEL_WARNING (temperature d)
               ''Temperature below threshold''], ALERT_LEVEL_WARNING)
         else ([], current_alert_level))
      else ([], current_alert_level))"

text \<open>\<open>// Check gas sensor\<close>\<close>

definition check_gas :: "shared_sensor_data_t \<Rightarrow> u8 \<Rightarrow> event list \<times> u8" where
  "check_gas d current_alert_level =
     (if gas_sensor_valid d \<noteq> 0 \<and> gas_detected d \<noteq> 0 then
        ([SendAlert ALERT_TYPE_GAS_DETECTED ALERT_LEVEL_CRITICAL 1
            ''Gas detected - potential hazard!'',
          SendPulse HIGH_CO2 ALERT_LEVEL_CRITICAL], ALERT_LEVEL_CRITICAL)
      else ([], current_alert_level))"

text \<open>\<open>// Check motion sensor\<close>: events, new \<open>last_motion\<close>, new level.\<close>

definition check_motion ::
  "alert_statics \<Rightarrow> shared_sensor_data_t \<Rightarrow> u8 \<Rightarrow> event list \<times> u8 \<times> u8" where
  "check_motion st d current_alert_level =
     (if motion_sensor_valid d \<noteq> 0 \<and> motion_detected d \<noteq> 0 then
        ([SendAlert ALERT_TYPE_MOTION ALERT_LEVEL_INFO 1 ''Motion detected'',
          SendPulse MOTION_DETECTED ALERT_LEVEL_INFO],
         motion_detected d,
         (if current_alert_level < ALERT_LEVEL_INFO then ALERT_LEVEL_INFO
          else current_alert_level))
      else ([], last_motion st, current_alert_level))"

text \<open>\<open>// Check door status\<close>: events, new \<open>last_door_state\<close>.\<close>

definition check_door :: "alert_statics \<Rightarrow> shared_sensor_data_t \<Rightarrow> event list \<times> u8" where
  "check_door st d =
     (if ultrasonic_valid d \<noteq> 0 then
        ((if door_closed d \<noteq> 0 \<and> last_door_state st = 0 then
            [SendAlert ALERT_TYPE_DOOR_CLOSED ALERT_LEVEL_INFO (uint (distance_cm d))
               ''Door closed'',
             SendPulse DOOR_OPEN ALERT_LEVEL_INFO]
          else if door_closed d = 0 \<and> last_door_state st \<noteq> 0 then
            [SendAlert ALERT_TYPE_DOOR_OPEN ALERT_LEVEL_INFO (uint (distance_cm d))
               ''Door opened'',
             SendPulse DOOR_OPEN ALERT_LEVEL_INFO]
          else []),
         door_closed d)
      else ([], last_door_state st))"

definition check_thresholds_and_alert ::
  "threshold_config_t \<Rightarrow> alert_statics \<Rightarrow> shared_sensor_data_t
     \<Rightarrow> event list \<times> alert_statics \<times> shared_sensor_data_t" where
  "check_thresholds_and_alert th st d =
    (let current0 = ALERT_LEVEL_INFO;
         (ev1, current1) = check_temperature th d current0;
         (ev2, current2) = check_gas d current1;
         (ev3, motion', current3) = check_motion st d current2;
         (ev4, door') = check_door st d
     in (ev1 @ ev2 @ ev3 @ ev4,
         \<lparr>last_alert_level = current3, last_motion = motion', last_door_state = door'\<rparr>,
         d\<lparr>alert_level := current3\<rparr>))"

text \<open>
  Successive calls of \<open>check_thresholds_and_alert\<close>, one per aggregator tick, on the
  successive contents of \<open>g_sensor_data\<close>; the statics are threaded from call to call.
  The result lists the events of each tick.
\<close>

fun alert_run ::
  "threshold_config_t \<Rightarrow> alert_statics \<Rightarrow> shared_sensor_data_t list \<Rightarrow> event list list" where
  "alert_run th st [] = []"
| "alert_run th st (d # ds) =
     (case check_thresholds_and_alert th st d of
        (evs, st', d') \<Rightarrow> evs # alert_run th st' ds)"

text \<open>The alert categories of the alert engine, and the alerts of one category in a
  list of events (the \<open>send_alert\<close> calls whose type belongs to the category).\<close>

datatype category = Temperature | Gas | Motion | Door

fun alert_category :: "event \<Rightarrow> category option" where
  "alert_category (SendAlert ty lvl v txt) =
     (if ty = ALERT_TYPE_TEMP_HIGH \<or> ty = ALERT_TYPE_TEMP_LOW then Some Temperature
      else if ty = ALERT_TYPE_GAS_DETECTED then Some Gas
      else if ty = ALERT_TYPE_MOTION then Some Motion
      else if ty = ALERT_TYPE_DOOR_CLOSED \<or> ty = ALERT_TYPE_DOOR_OPEN then Some Door
      else None)"
| "alert_category _ = None"

definition alerts_of :: "category \<Rightarrow> event list \<Rightarrow> event list" where
  "alerts_of c evs = filter (\<lambda>e. alert_category e = Some c) evs"

text \<open>All alerts of a list of events, and the highest severity among them
  (\<open>ALERT_LEVEL_INFO\<close> when there is none).\<close>

fun is_alert :: "event \<Rightarrow> bool" where
  "is_alert (SendAlert ty lvl v txt) = True"
| "is_alert _ = False"

fun max_severity :: "event list \<Rightarrow> u8" where
  "max_severity [] = ALERT_LEVEL_INFO"
| "max_severity (SendAlert ty lvl v txt # es) = max lvl (max_severity es)"
| "max_severity (e # es) = max_severity es"

section \<open>The producers (sensor threads)\<close>

text \<open>
  Each producer loops on \<open>g_running\<close>: it calls its decoder and publishes the outcome
  under the mutex. The loop is a recursion over the outcomes of the successive decoder
  calls: the return code, and the values that the decoder's out-parameters hold after
  the call. The result is the content of \<open>g_sensor_data\<close> after the last iteration.
\<close>

fun temperature_sensor_thread ::
  "(int \<times> int \<times> int) list \<Rightarrow> shared_sensor_data_t \<Rightarrow> shared_sensor_data_t" where
  "temperature_sensor_thread [] g = g"
| "temperature_sensor_thread ((rc, temp, hum) # rs) g =
     temperature_sensor_thread rs
       (if rc = 0 then g\<lparr>temperature := temp, humidity := hum, temp_sensor_valid := 1\<rparr>
        else g\<lparr>temp_sensor_valid := 0\<rparr>)"

fun gas_sensor_thread ::
  "(int \<times> bool) list \<Rightarrow> shared_sensor_data_t \<Rightarrow> shared_sensor_data_t" where
  "gas_sensor_thread [] g = g"
| "gas_sensor_thread ((rc, detected) # rs) g =
     gas_sensor_thread rs
       (if rc = 0 then g\<lparr>gas_detected := (if detected then 1 else 0), gas_sensor_valid := 1\<rparr>
        else g\<lparr>gas_sensor_valid := 0\<rparr>)"

fun motion_sensor_thread ::
  "(int \<times> bool) list \<Rightarrow> shared_sensor_data_t \<Rightarrow> shared_sensor_data_t" where
  "motion_sensor_thread [] g = g"
| "motion_sensor_thread ((rc, detected) # rs) g =
     motion_sensor_thread rs
       (if rc = 0 then
          g\<lparr>motion_detected := (if detected then 1 else 0), motion_sensor_valid := 1\<rparr>
        else g\<lparr>motion_sensor_valid := 0\<rparr>)"

fun ultrasonic_sensor_thread ::
  "threshold_config_t \<Rightarrow> (int \<times> u16) list \<Rightarrow> shared_sensor_data_t \<Rightarrow> shared_sensor_data_t" where
  "ultrasonic_sensor_thread th [] g = g"
| "ultrasonic_sensor_thread th ((rc, distance) # rs) g =
     ultrasonic_sensor_thread th rs
       (if rc = 0 then
          (let closed = (distance \<le> door_closed_dist_cm th)
           in g\<lparr>distance_cm := distance, door_closed := (if closed then 1 else 0),
                ultrasonic_valid := 1\<rparr>)
        else g\<lparr>ultrasonic_valid := 0\<rparr>)"

section \<open>The aggregator\<close>

text \<open>The globals and statics that the aggregator thread reads and writes.\<close>

record analyzer_state =
  statics :: alert_statics
  g_sequence_num :: u32
  g_sensor_data :: shared_sensor_data_t

definition analyzer_init :: analyzer_state where
  "analyzer_init = \<lparr>statics = alert_statics_init, g_sequence_num = 0,
     g_sensor_data = g_sensor_data_init\<rparr>"

text \<open>
  One iteration of the loop of \<open>aggregator_thread\<close>, after the sleep; \<open>now\<close> is the value
  of \<open>time(NULL)\<close>. \<open>snapshot_msg\<close> fills the local message from the shared data (lines 293
  to 311). The events are in program order.
\<close>

definition snapshot_msg :: "int \<Rightarrow> u32 \<Rightarrow> shared_sensor_data_t \<Rightarrow> sensor_data_msg_t" where
  "snapshot_msg now seq g =
     \<lparr>msg_type = MSG_TYPE_SENSOR_DATA, msg_timestamp = now,
      msg_temperature = temperature g, msg_humidity = humidity g,
      msg_temp_sensor_valid = temp_sensor_valid g,
      msg_gas_detected = gas_detected g,
      msg_gas_sensor_valid = gas_sensor_valid g,
      msg_motion_detected = motion_detected g,
      msg_motion_sensor_valid = motion_sensor_valid g,
      msg_distance_cm = distance_cm g, msg_door_closed = door_closed g,
      msg_ultrasonic_valid = ultrasonic_valid g,
      msg_alert_level = alert_level g,
      msg_sequence_num = seq\<rparr>"

definition aggregator_tick ::
  "threshold_config_t \<Rightarrow> int \<Rightarrow> analyzer_state \<Rightarrow> event list \<times> analyzer_state" where
  "aggregator_tick th now s =
    (let g = g_sensor_data s;
         msg = snapshot_msg now (g_sequence_num s) g;
         seq' = g_sequence_num s + 1;
         (evs, st', g') = check_thresholds_and_alert th (statics s) g
     in ([MutexLock] @ evs @ [MutexUnlock, SendData msg],
         \<lparr>statics = st', g_sequence_num = seq', g_sensor_data = g'\<rparr>))"

text \<open>
  A run of the whole analyzer: before each aggregator tick every producer completes one
  iteration with the given decoder outcome. The result lists the events of each tick.
\<close>

record producer_outcomes =
  temp_outcome :: "int \<times> int \<times> int"
  gas_outcome :: "int \<times> bool"
  motion_outcome :: "int \<times> bool"
  ultrasonic_outcome :: "int \<times> u16"

definition producers_publish ::
  "threshold_config_t \<Rightarrow> producer_outcomes \<Rightarrow> shared_sensor_data_t \<Rightarrow> shared_sensor_data_t" where
  "producers_publish th p g =
     ultrasonic_sensor_thread th [ultrasonic_outcome p]
       (motion_sensor_thread [motion_outcome p]
         (gas_sensor_thread [gas_outcome p]
           (temperature_sensor_thread [temp_outcome p] g)))"

fun analyzer_run ::
  "threshold_config_t \<Rightarrow> analyzer_state \<Rightarrow> (producer_outcomes \<times> int) list \<Rightarrow> event list list" where
  "analyzer_run th s [] = []"
| "analyzer_run th s ((p, now) # ps) =
     (case aggregator_tick th now (s\<lparr>g_sensor_data := producers_publish th p (g_sensor_data s)\<rparr>) of
        (evs, s') \<Rightarrow> evs # analyzer_run th s' ps)"

text \<open>The \<open>alert_level\<close> field of the snapshot message delivered in a tick.\<close>

fun outbound_alert_level :: "event list \<Rightarrow> u8 list" where
  "outbound_alert_level [] = []"
| "outbound_alert_level (SendData msg # es) = msg_alert_level msg # outbound_alert_level es"
| "outbound_alert_level (e # es) = outbound_alert_level es"

text \<open>
  Whether every alert and pulse of a trace is sent while the mutex is not held; the
  first argument tells whether the mutex is held at the start of the trace.
\<close>

fun alerts_outside_lock :: "bool \<Rightarrow> event list \<Rightarrow> bool" where
  "alerts_outside_lock held [] = True"
| "alerts_outside_lock held (MutexLock # es) = alerts_outside_lock True es"
| "alerts_outside_lock held (MutexUnlock # es) = alerts_outside_lock False es"
| "alerts_outside_lock held (SendAlert ty lvl v txt # es) =
     (\<not> held \<and> alerts_outside_lock held es)"
| "alerts_outside_lock held (SendPulse c lvl # es) = (\<not> held \<and> alerts_outside_lock held es)"
| "alerts_outside_lock held (SendData msg # es) = alerts_outside_lock held es"

text \<open>Whether every alert and pulse of a trace is sent while the mutex is held.\<close>

fun alerts_inside_lock :: "bool \<Rightarrow> event list \<Rightarrow> bool" where
  "alerts_inside_lock held [] = True"
| "alerts_inside_lock held (MutexLock # es) = alerts_inside_lock True es"
| "alerts_inside_lock held (MutexUnlock # es) = alerts_inside_lock False es"
| "alerts_inside_lock held (SendAlert ty lvl v txt # es) = (held \<and> alerts_inside_lock held es)"
| "alerts_inside_lock held (SendPulse c lvl # es) = (held \<and> alerts_inside_lock held es)"
| "alerts_inside_lock held (SendData msg # es) = alerts_inside_lock held es"

section \<open>The single-wire decoder (sensors/temperature_sensor.h)\<close>

text \<open>
  The decoder talks to the hardware through \<open>rpi_gpio_setup\<close>, \<open>rpi_gpio_output\<close>,
  \<open>rpi_gpio_input\<close> and \<open>ClockCycles\<close>. The hardware is a script of the answers that
  these calls will get, in the order of the calls:
  \<^item> \<open>gpio_rets\<close>: the return values of the calls of \<open>rpi_gpio_setup\<close> and
    \<open>rpi_gpio_output\<close>;
  \<^item> \<open>gpio_inputs\<close>: for each call of \<open>rpi_gpio_input\<close>, its return value and the
    content of \<open>level\<close> after the call;
  \<^item> \<open>clock\<close>: the readings of \<open>ClockCycles\<close>;
  \<^item> \<open>cycles_per_sec\<close>: the constant of the system page.
  A call that finds its script empty yields \<open>None\<close>: the script is too short to tell what
  the program does next. The busy-waiting loops end on every script, as each iteration
  consumes an answer.
\<close>

record dht_hw =
  gpio_rets :: "int list"
  gpio_inputs :: "(int \<times> u32) list"
  clock :: "u64 list"
  cycles_per_sec :: u64

definition GPIO_LOW :: u32 where "GPIO_LOW = 4"
definition GPIO_HIGH :: u32 where "GPIO_HIGH = 8"

definition rpi_gpio_call :: "dht_hw \<Rightarrow> (int \<times> dht_hw) option" where
  "rpi_gpio_call w =
     (case gpio_rets w of [] \<Rightarrow> None | r # rs \<Rightarrow> Some (r, w\<lparr>gpio_rets := rs\<rparr>))"

definition rpi_gpio_input :: "dht_hw \<Rightarrow> ((int \<times> u32) \<times> dht_hw) option" where
  "rpi_gpio_input w =
     (case gpio_inputs w of [] \<Rightarrow> None | r # rs \<Rightarrow> Some (r, w\<lparr>gpio_inputs := rs\<rparr>))"

definition dht_get_cycles :: "dht_hw \<Rightarrow> (u64 \<times> dht_hw) option" where
  "dht_get_cycles w =
     (case clock w of [] \<Rightarrow> None | c # cs \<Rightarrow> Some (c, w\<lparr>clock := cs\<rparr>))"

definition dht_cycles_per_usec :: "dht_hw \<Rightarrow> u64" where
  "dht_cycles_per_usec w = cycles_per_sec w div 1000000"

text \<open>The C conversion \<open>(int)\<close> of a \<open>uint64_t\<close>: the low 32 bits, read as signed.\<close>

definition int_of_u64 :: "u64 \<Rightarrow> int" where
  "int_of_u64 x = sint (ucast x :: u32)"

text \<open>The loop of \<open>dht_delay_us\<close>: read the clock until it reaches the target.\<close>

fun delay_loop :: "u64 \<Rightarrow> u64 list \<Rightarrow> u64 list option" where
  "delay_loop target [] = None"
| "delay_loop target (c # cs) = (if c < target then delay_loop target cs else Some cs)"

definition dht_delay_us :: "nat \<Rightarrow> dht_hw \<Rightarrow> dht_hw option" where
  "dht_delay_us usec w =
     do {
       (start, w1) \<leftarrow> dht_get_cycles w;
       let target = start + of_nat usec * dht_cycles_per_usec w1;
       cs \<leftarrow> delay_loop target (clock w1);
       Some (w1\<lparr>clock := cs\<rparr>)
     }"

text \<open>
  The \<open>for (;;)\<close> loop of \<open>dht_wait_while_level\<close>, on the two scripts it consumes. It
  yields the return value of \<open>dht_wait_while_level\<close> with what is left of the scripts.
\<close>

fun wait_loop ::
  "u32 \<Rightarrow> u64 \<Rightarrow> u64 \<Rightarrow> u64 \<Rightarrow> (int \<times> u32) list \<Rightarrow> u64 list
     \<Rightarrow> (int \<times> (int \<times> u32) list \<times> u64 list) option" where
  "wait_loop expected start timeout_cycles cpu [] cs = None"
| "wait_loop expected start timeout_cycles cpu ((rc, level) # ins) cs =
     (if rc \<noteq> 0 then Some (-1, ins, cs)
      else if level \<noteq> expected then
        (case cs of
           [] \<Rightarrow> None
         | now # cs' \<Rightarrow> Some (int_of_u64 ((now - start) div cpu), ins, cs'))
      else
        (case cs of
           [] \<Rightarrow> None
         | c # cs' \<Rightarrow>
             if c - start > timeout_cycles then Some (-1, ins, cs')
             else wait_loop expected start timeout_cycles cpu ins cs'))"

definition dht_wait_while_level :: "u32 \<Rightarrow> int \<Rightarrow> dht_hw \<Rightarrow> (int \<times> dht_hw) option" where
  "dht_wait_while_level expected timeout_us w =
     do {
       (start, w1) \<leftarrow> dht_get_cycles w;
       let timeout_cycles = word_of_int timeout_us * dht_cycles_per_usec w1;
       (t, ins, cs) \<leftarrow> wait_loop expected start timeout_cycles (dht_cycles_per_usec w1)
                        (gpio_inputs w1) (clock w1);
       Some (t, w1\<lparr>gpio_inputs := ins, clock := cs\<rparr>)
     }"

definition dht_read_bit :: "dht_hw \<Rightarrow> (int \<times> dht_hw) option" where
  "dht_read_bit w =
     do {
       (t, w1) \<leftarrow> dht_wait_while_level GPIO_LOW 100 w;
       if t < 0 then Some (-1, w1)
       else do {
         (t, w2) \<leftarrow> dht_wait_while_level GPIO_HIGH 120 w1;
         if t < 0 then Some (-1, w2)
         else Some ((if t > 50 then 1 else 0), w2)
       }
     }"

text \<open>
  The early returns of \<open>temperature_sensor_read\<close>. All of them return \<open>-1\<close> in the
  source; the tag records which test failed:
  \<^item> \<open>LineError\<close>: \<open>rpi_gpio_setup\<close> or \<open>rpi_gpio_output\<close> returned nonzero;
  \<^item> \<open>Timeout\<close>: \<open>dht_wait_while_level\<close> or \<open>dht_read_bit\<close> returned a negative value
    (the line did not change in time, or it could not be read);
  \<^item> \<open>ChecksumError\<close>: the checksum test failed.
\<close>

datatype dht_error = LineError | Timeout | ChecksumError

text \<open>
  The loop \<open>for (i = 0; i < 40; ++i)\<close> of step 3, from the index \<open>i\<close> on. \<open>data\<close> is the
  array \<open>uint8_t data[5]\<close>.
\<close>

function read_bits ::
  "nat \<Rightarrow> u8 list \<Rightarrow> dht_hw \<Rightarrow> ((dht_error + u8 list) \<times> dht_hw) option" where
  "read_bits i data w =
     (if i < 40 then
        do {
          (bit, w1) \<leftarrow> dht_read_bit w;
          if bit < 0 then Some (Inl Timeout, w1)
          else read_bits (i + 1)
                 (data[i div 8 := push_bit 1 (data ! (i div 8)) OR word_of_int bit]) w1
        }
      else Some (Inr data, w))"
  by pat_completeness auto
termination
  by (relation "measure (\<lambda>(i, data, w). 40 - i)") auto

text \<open>
  Steps 1 and 2 of \<open>temperature_sensor_read\<close>: the start signal and the handshake.
  The result is the first early return, or \<open>Inr ()\<close> when the sensor has answered.
  (\<open>usleep(20000)\<close> lets time pass and has no other effect.)
\<close>

definition dht_handshake :: "dht_hw \<Rightarrow> ((dht_error + unit) \<times> dht_hw) option" where
  "dht_handshake w =
     do {
       (r, w1) \<leftarrow> rpi_gpio_call w;
       if r \<noteq> 0 then Some (Inl LineError, w1) else do {
       (r, w2) \<leftarrow> rpi_gpio_call w1;
       if r \<noteq> 0 then Some (Inl LineError, w2) else do {
       (r, w3) \<leftarrow> rpi_gpio_call w2;
       if r \<noteq> 0 then Some (Inl LineError, w3) else do {
       w4 \<leftarrow> dht_delay_us 40 w3;
       (r, w5) \<leftarrow> rpi_gpio_call w4;
       if r \<noteq> 0 then Some (Inl LineError, w5) else do {
       (t, w6) \<leftarrow> dht_wait_while_level GPIO_HIGH 200 w5;
       if t < 0 then Some (Inl Timeout, w6) else do {
       (t, w7) \<leftarrow> dht_wait_while_level GPIO_LOW 200 w6;
       if t < 0 then Some (Inl Timeout, w7) else do {
       (t, w8) \<leftarrow> dht_wait_while_level GPIO_HIGH 200 w7;
       if t < 0 then Some (Inl Timeout, w8) else Some (Inr (), w8)
     }}}}}}}"

text \<open>
  Steps 1 to 3: the handshake, then the 40 bits into \<open>uint8_t data[5] = {0}\<close>. The
  result is the first early return, or the five bytes received.
\<close>

definition dht_receive :: "dht_hw \<Rightarrow> ((dht_error + u8 list) \<times> dht_hw) option" where
  "dht_receive w =
     do {
       (r, w8) \<leftarrow> dht_handshake w;
       case r of
         Inl e \<Rightarrow> Some (Inl e, w8)
       | Inr u \<Rightarrow> read_bits 0 [0, 0, 0, 0, 0] w8
     }"

text \<open>
  Step 4 and the results, on the five bytes received. \<open>temp_var\<close> and \<open>hum_var\<close> are
  the variables that the pointers \<open>temperature\<close> and \<open>humidity\<close> point to: \<open>None\<close> is a null
  pointer, \<open>Some v\<close> a variable that holds \<open>v\<close>. The function yields the outcome and
  the two variables after the call.
\<close>

definition dht_verify ::
  "u8 list \<Rightarrow> int option \<Rightarrow> int option \<Rightarrow> (dht_error + unit) \<times> int option \<times> int option" where
  "dht_verify data temp_var hum_var =
     (let sum = data ! 0 + data ! 1 + data ! 2 + data ! 3
      in if sum \<noteq> data ! 4 then (Inl ChecksumError, temp_var, hum_var)
         else (Inr (),
               (if temp_var \<noteq> None then Some (uint (data ! 2)) else temp_var),
               (if hum_var \<noteq> None then Some (uint (data ! 0)) else hum_var)))"

definition temperature_sensor_read ::
  "dht_hw \<Rightarrow> int option \<Rightarrow> int option
     \<Rightarrow> (((dht_error + unit) \<times> int option \<times> int option) \<times> dht_hw) option" where
  "temperature_sensor_read w temp_var hum_var =
     do {
       (r, w') \<leftarrow> dht_receive w;
       case r of
         Inl e \<Rightarrow> Some ((Inl e, temp_var, hum_var), w')
       | Inr data \<Rightarrow> Some (dht_verify data temp_var hum_var, w')
     }"

text \<open>The value that the C function returns.\<close>

fun return_code :: "dht_error + unit \<Rightarrow> int" where
  "return_code (Inl e) = -1"
| "return_code (Inr u) = 0"

section \<open>The pulse-echo decoder (sensors/ultrasonic_sensor.h)\<close>

text \<open>
  The decoder computes in \<open>double\<close> and \<open>float\<close>. A floating-point value is the real
  number it denotes, and every operation yields its exact result rounded to the type of
  the operation. The two roundings are parameters of the model: \<open>to_double\<close> and
  \<open>to_float\<close>. What the theorems need of them is stated by two predicates, both true
  of the IEEE 754 roundings to nearest:
  \<^item> \<open>rounding\<close>, for binary32: the rounding is monotone, and it leaves the integers up
    to \<open>2 ^ 24\<close> as they are;
  \<^item> \<open>double_rounding\<close>, for binary64: the rounding is monotone, it leaves the integers
    up to \<open>2 ^ 53\<close> as they are, and between \<open>2 ^ -10\<close> and \<open>2 ^ 60\<close> its relative
    error is at most \<open>2 ^ -52\<close>.
\<close>

record fp_model =
  to_double :: "real \<Rightarrow> real"
  to_float :: "real \<Rightarrow> real"

definition rounding :: "(real \<Rightarrow> real) \<Rightarrow> bool" where
  "rounding r = (mono r \<and> (\<forall>k::int. \<bar>k\<bar> \<le> 2 ^ 24 \<longrightarrow> r (of_int k) = of_int k))"

definition double_rounding :: "(real \<Rightarrow> real) \<Rightarrow> bool" where
  "double_rounding r =
     (mono r
      \<and> (\<forall>k::int. \<bar>k\<bar> \<le> 2 ^ 53 \<longrightarrow> r (of_int k) = of_int k)
      \<and> (\<forall>x. 1 / 2 ^ 10 \<le> \<bar>x\<bar> \<and> \<bar>x\<bar> \<le> 2 ^ 60 \<longrightarrow> \<bar>r x - x\<bar> \<le> \<bar>x\<bar> / 2 ^ 52))"

text \<open>Arithmetic without rounding error.\<close>

definition fp_exact :: fp_model where
  "fp_exact = \<lparr>to_double = (\<lambda>x. x), to_float = (\<lambda>x. x)\<rparr>"

record timespec =
  tv_sec :: int
  tv_nsec :: int

text \<open>
  The time from one timestamp to another in nanoseconds, as an integer; \<open>clock_gettime\<close>
  yields timestamps with \<open>0 \<le> tv_nsec < 10 ^ 9\<close>.
\<close>

definition elapsed_ns :: "timespec \<Rightarrow> timespec \<Rightarrow> int" where
  "elapsed_ns start stop =
     (tv_sec stop - tv_sec start) * 1000000000 + (tv_nsec stop - tv_nsec start)"

definition valid_timespec :: "timespec \<Rightarrow> bool" where
  "valid_timespec t = (0 \<le> tv_nsec t \<and> tv_nsec t < 1000000000)"

definition SPEED_OF_SOUND_CM_PER_US :: real where
  "SPEED_OF_SOUND_CM_PER_US = 343 / 10000"

definition EDGE_TIMEOUT_MS :: real where
  "EDGE_TIMEOUT_MS = 50"

text \<open>The sum is computed in \<open>double\<close>; the function returns it as a \<open>float\<close>.\<close>

definition calculate_elapsed_time_us :: "fp_model \<Rightarrow> timespec \<Rightarrow> timespec \<Rightarrow> real" where
  "calculate_elapsed_time_us fp start stop =
     to_float fp (to_double fp
       (to_double fp (to_double fp (of_int (tv_sec stop - tv_sec start)) * 1000000)
        + to_double fp (to_double fp (of_int (tv_nsec stop - tv_nsec start)) / 1000)))"

text \<open>
  The conversion \<open>(uint16_t)\<close> of a \<open>float\<close> discards the fraction. C leaves it undefined
  when the result does not fit the type: \<open>None\<close>.
\<close>

definition u16_of_float :: "real \<Rightarrow> u16 option" where
  "u16_of_float x =
     (if -1 < x \<and> x < 65536 then Some (word_of_int (if 0 \<le> x then \<lfloor>x\<rfloor> else \<lceil>x\<rceil>))
      else None)"

text \<open>
  Lines 268 to 270 of \<open>ultrasonic_sensor_read\<close>, from the pulse duration on: the product
  and the quotient are computed in \<open>double\<close>, stored in the \<open>float\<close> variable
  \<open>distance_float\<close>, and converted to \<open>uint16_t\<close>.
\<close>

definition distance_float :: "fp_model \<Rightarrow> real \<Rightarrow> real" where
  "distance_float fp pulse_duration_us =
     to_float fp (to_double fp
       (to_double fp (pulse_duration_us * to_double fp SPEED_OF_SOUND_CM_PER_US) / 2))"

definition pulse_distance_cm :: "fp_model \<Rightarrow> real \<Rightarrow> u16 option" where
  "pulse_distance_cm fp pulse_duration_us = u16_of_float (distance_float fp pulse_duration_us)"

text \<open>
  \<open>ultrasonic_sensor_read\<close>, given the outcomes of its two calls of
  \<open>wait_for_gpio_state\<close> (return value and timestamp) and the variable that
  \<open>distance_cm\<close> points to. It yields the return value and the variable after the call.
\<close>

definition ultrasonic_sensor_read ::
  "fp_model \<Rightarrow> int \<times> timespec \<Rightarrow> int \<times> timespec \<Rightarrow> u16 \<Rightarrow> (int \<times> u16) option" where
  "ultrasonic_sensor_read fp rising falling distance_var =
     (if fst rising \<noteq> 0 then Some (-1, distance_var)
      else if fst falling \<noteq> 0 then Some (-1, distance_var)
      else
        (case pulse_distance_cm fp (calculate_elapsed_time_us fp (snd rising) (snd falling)) of
           None \<Rightarrow> None
         | Some v \<Rightarrow> Some (0, v)))"

text \<open>The events that \<open>send_alert\<close> and \<open>send_pulse\<close> stand for.\<close>

fun alert_or_pulse :: "event \<Rightarrow> bool" where
  "alert_or_pulse (SendAlert ty lvl v txt) = True"
| "alert_or_pulse (SendPulse c lvl) = True"
| "alert_or_pulse _ = False"

section \<open>Scenarios\<close>

text \<open>The shared data after the ultrasonic producer has published a distance.\<close>

definition door_at :: "u16 \<Rightarrow> shared_sensor_data_t" where
  "door_at cm = ultrasonic_sensor_thread thresholds [(0, cm)] g_sensor_data_init"

text \<open>The shared data after the temperature producer has published a reading.\<close>

definition temperature_at :: "int \<Rightarrow> shared_sensor_data_t" where
  "temperature_at t = temperature_sensor_thread [(0, t, 40)] g_sensor_data_init"

text \<open>
  The decoder outcomes of the end-to-end scenario: all four reads succeed, with
  temperature 32, no gas, no motion and the door at the given distance.
\<close>

definition scenario_reading :: "u16 \<Rightarrow> producer_outcomes" where
  "scenario_reading cm = \<lparr>temp_outcome = (0, 32, 40), gas_outcome = (0, False),
     motion_outcome = (0, False), ultrasonic_outcome = (0, cm)\<rparr>"

text \<open>
  A hardware script for the single-wire decoder, at 54 cycles per microsecond. Every
  wait finds the line changed at its first sample, so it reads the clock twice, at
  its start and at its end; \<open>clock_from t ds\<close> lists these readings for waits that
  last \<open>ds\<close> microseconds, one after the other from the reading \<open>t\<close> on.
  \<open>dht_script bits\<close> answers the start signal (40 us delay), the handshake (20, 80 and
  80 us) and then sends the bits: 50 us low, then 27 us high for a 0 and 70 us high for
  a 1. \<open>dht_frame\<close> lists the bits of a sequence of bytes, most significant bit first.
\<close>

fun clock_from :: "u64 \<Rightarrow> nat list \<Rightarrow> u64 list" where
  "clock_from t [] = []"
| "clock_from t (d # ds) = t # (t + 54 * of_nat d) # clock_from (t + 54 * of_nat d) ds"

definition dht_script :: "bool list \<Rightarrow> dht_hw" where
  "dht_script bits =
     \<lparr>gpio_rets = [0, 0, 0, 0],
      gpio_inputs = [(0, GPIO_LOW), (0, GPIO_HIGH), (0, GPIO_LOW)]
        @ concat (map (\<lambda>b. [(0, GPIO_HIGH), (0, GPIO_LOW)]) bits),
      clock = clock_from 1000
        ([40, 20, 80, 80] @ concat (map (\<lambda>b. [50, if b then 70 else 27]) bits)),
      cycles_per_sec = 54000000\<rparr>"

fun bits_of_byte :: "nat \<Rightarrow> nat \<Rightarrow> bool list" where
  "bits_of_byte 0 x = []"
| "bits_of_byte (Suc n) x = odd (x div 2 ^ n) # bits_of_byte n x"

definition dht_frame :: "nat list \<Rightarrow> bool list" where
  "dht_frame bytes = concat (map (bits_of_byte 8) bytes)"


section \<open>Properties of the alert engine\<close>

lemmas alert_consts =
  ALERT_LEVEL_INFO_def ALERT_LEVEL_WARNING_def ALERT_LEVEL_CRITICAL_def
  ALERT_TYPE_TEMP_HIGH_def ALERT_TYPE_TEMP_LOW_def ALERT_TYPE_GAS_DETECTED_def
  ALERT_TYPE_MOTION_def ALERT_TYPE_DOOR_CLOSED_def ALERT_TYPE_DOOR_OPEN_def

lemma alerts_of_append: "alerts_of c (xs @ ys) = alerts_of c xs @ alerts_of c ys"
  by (simp add: alerts_of_def)

lemma check_events:
  "fst (check_thresholds_and_alert th st d) =
     fst (check_temperature th d ALERT_LEVEL_INFO)
     @ fst (check_gas d (snd (check_temperature th d ALERT_LEVEL_INFO)))
     @ fst (check_motion st d (snd (check_gas d (snd (check_temperature th d ALERT_LEVEL_INFO)))))
     @ fst (check_door st d)"
  by (simp add: check_thresholds_and_alert_def Let_def split_beta)

lemma alerts_of_temperature:
  "alerts_of c (fst (check_temperature th d l)) =
     (if c = Temperature then
        (if temp_sensor_valid d \<noteq> 0 \<and> temperature d > temp_high_threshold th then
           [SendAlert ALERT_TYPE_TEMP_HIGH ALERT_LEVEL_WARNING (temperature d)
              ''Temperature above threshold'']
         else if temp_sensor_valid d \<noteq> 0 \<and> temperature d < temp_low_threshold th then
           [SendAlert ALERT_TYPE_TEMP_LOW ALERT_LEVEL_WARNING (temperature d)
              ''Temperature below threshold'']
         else [])
      else [])"
  by (simp add: check_temperature_def alerts_of_def alert_consts)

lemma alerts_of_gas:
  "alerts_of c (fst (check_gas d l)) =
     (if c = Gas \<and> gas_sensor_valid d \<noteq> 0 \<and> gas_detected d \<noteq> 0 then
        [SendAlert ALERT_TYPE_GAS_DETECTED ALERT_LEVEL_CRITICAL 1
           ''Gas detected - potential hazard!'']
      else [])"
  by (simp add: check_gas_def alerts_of_def alert_consts)

lemma alerts_of_motion:
  "alerts_of c (fst (check_motion st d l)) =
     (if c = Motion \<and> motion_sensor_valid d \<noteq> 0 \<and> motion_detected d \<noteq> 0 then
        [SendAlert ALERT_TYPE_MOTION ALERT_LEVEL_INFO 1 ''Motion detected'']
      else [])"
  by (simp add: check_motion_def alerts_of_def alert_consts)

lemma alerts_of_door:
  "alerts_of c (fst (check_door st d)) =
     (if c = Door then
        (if ultrasonic_valid d \<noteq> 0 \<and> door_closed d \<noteq> 0 \<and> last_door_state st = 0 then
           [SendAlert ALERT_TYPE_DOOR_CLOSED ALERT_LEVEL_INFO (uint (distance_cm d))
              ''Door closed'']
         else if ultrasonic_valid d \<noteq> 0 \<and> door_closed d = 0 \<and> last_door_state st \<noteq> 0 then
           [SendAlert ALERT_TYPE_DOOR_OPEN ALERT_LEVEL_INFO (uint (distance_cm d))
              ''Door opened'']
         else [])
      else [])"
  by (simp add: check_door_def alerts_of_def alert_consts)


lemma check_statics:
  "fst (snd (check_thresholds_and_alert th st d)) =
     \<lparr>last_alert_level = alert_level (snd (snd (check_thresholds_and_alert th st d))),
      last_motion = fst (snd (check_motion st d
         (snd (check_gas d (snd (check_temperature th d ALERT_LEVEL_INFO)))))),
      last_door_state = snd (check_door st d)\<rparr>"
  by (simp add: check_thresholds_and_alert_def Let_def split_beta)

lemma check_door_latch:
  "last_door_state (fst (snd (check_thresholds_and_alert th st d))) =
     (if ultrasonic_valid d \<noteq> 0 then door_closed d else last_door_state st)"
  by (simp add: check_statics check_door_def)

lemma check_data:
  "snd (snd (check_thresholds_and_alert th st d)) =
     d\<lparr>alert_level := snd (snd (check_motion st d
         (snd (check_gas d (snd (check_temperature th d ALERT_LEVEL_INFO))))))\<rparr>"
  by (simp add: check_thresholds_and_alert_def Let_def split_beta)

lemma max_severity_append:
  "max_severity (xs @ ys) = max (max_severity xs) (max_severity ys)"
proof (induction xs)
  case Nil
  show ?case by (simp add: ALERT_LEVEL_INFO_def)
next
  case (Cons e es)
  then show ?case by (cases e) (simp_all add: max.assoc)
qed

lemma max_severity_temperature:
  "snd (check_temperature th d ALERT_LEVEL_INFO)
     = max_severity (fst (check_temperature th d ALERT_LEVEL_INFO))"
  by (simp add: check_temperature_def alert_consts)

lemma max_severity_gas:
  "l \<le> ALERT_LEVEL_CRITICAL \<Longrightarrow>
     snd (check_gas d l) = max l (max_severity (fst (check_gas d l)))"
  by (simp add: check_gas_def alert_consts max_def)

lemma max_severity_motion:
  "snd (snd (check_motion st d l)) = max l (max_severity (fst (check_motion st d l)))"
  by (simp add: check_motion_def alert_consts max_def)

lemma max_severity_door: "max_severity (fst (check_door st d)) = ALERT_LEVEL_INFO"
  by (simp add: check_door_def alert_consts)

lemma temperature_level_le:
  "snd (check_temperature th d ALERT_LEVEL_INFO) \<le> ALERT_LEVEL_CRITICAL"
  by (simp add: check_temperature_def alert_consts)

lemma check_alert_level:
  "alert_level (snd (snd (check_thresholds_and_alert th st d))) =
     max_severity (fst (check_thresholds_and_alert th st d))"
proof -
  let ?t = "check_temperature th d ALERT_LEVEL_INFO"
  let ?g = "check_gas d (snd ?t)"
  let ?m = "check_motion st d (snd ?g)"
  have m: "snd (snd ?m) = max (snd ?g) (max_severity (fst ?m))"
    by (rule max_severity_motion)
  have g: "snd ?g = max (snd ?t) (max_severity (fst ?g))"
    by (rule max_severity_gas [OF temperature_level_le])
  have t: "snd ?t = max_severity (fst ?t)"
    by (rule max_severity_temperature)
  have "snd (snd ?m) =
      max (max (max_severity (fst ?t)) (max_severity (fst ?g))) (max_severity (fst ?m))"
    by (rule trans [OF m]) (simp only: g [symmetric] t [symmetric])
  moreover have "max x ALERT_LEVEL_INFO = x" for x :: u8
    by (simp add: ALERT_LEVEL_INFO_def max_def)
  ultimately show ?thesis
    by (simp add: check_data check_events max_severity_append max_severity_door max.assoc)
qed

lemma alert_run_Cons:
  "alert_run th st (d # ds) =
     fst (check_thresholds_and_alert th st d)
       # alert_run th (fst (snd (check_thresholds_and_alert th st d))) ds"
  by (simp split: prod.splits)

declare alert_run.simps(2) [simp del]

lemma length_alert_run: "length (alert_run th st ds) = length ds"
  by (induction ds arbitrary: st) (simp_all only: alert_run.simps(1) alert_run_Cons list.size)

lemma alert_run_nth:
  "i < length ds \<Longrightarrow>
     \<exists>st'. alert_run th st ds ! i = fst (check_thresholds_and_alert th st' (ds ! i))"
proof (induction ds arbitrary: st i)
  case Nil
  then show ?case by simp
next
  case (Cons d ds)
  show ?case
  proof (cases i)
    case 0
    show ?thesis unfolding 0 alert_run_Cons by (rule exI [of _ st]) simp
  next
    case (Suc j)
    with Cons.prems have "j < length ds" by simp
    from Cons.IH [OF this] show ?thesis unfolding Suc alert_run_Cons by simp
  qed
qed

lemma check_temperature_alerts:
  "alerts_of Temperature (fst (check_thresholds_and_alert th st d)) =
     (if temp_sensor_valid d \<noteq> 0 \<and> temperature d > temp_high_threshold th then
        [SendAlert ALERT_TYPE_TEMP_HIGH ALERT_LEVEL_WARNING (temperature d)
           ''Temperature above threshold'']
      else if temp_sensor_valid d \<noteq> 0 \<and> temperature d < temp_low_threshold th then
        [SendAlert ALERT_TYPE_TEMP_LOW ALERT_LEVEL_WARNING (temperature d)
           ''Temperature below threshold'']
      else [])"
  by (simp add: check_events alerts_of_append alerts_of_temperature alerts_of_gas
        alerts_of_motion alerts_of_door)

lemma check_gas_alerts:
  "alerts_of Gas (fst (check_thresholds_and_alert th st d)) =
     (if gas_sensor_valid d \<noteq> 0 \<and> gas_detected d \<noteq> 0 then
        [SendAlert ALERT_TYPE_GAS_DETECTED ALERT_LEVEL_CRITICAL 1
           ''Gas detected - potential hazard!'']
      else [])"
  by (simp add: check_events alerts_of_append alerts_of_temperature alerts_of_gas
        alerts_of_motion alerts_of_door)

lemma check_motion_alerts:
  "alerts_of Motion (fst (check_thresholds_and_alert th st d)) =
     (if motion_sensor_valid d \<noteq> 0 \<and> motion_detected d \<noteq> 0 then
        [SendAlert ALERT_TYPE_MOTION ALERT_LEVEL_INFO 1 ''Motion detected'']
      else [])"
  by (simp add: check_events alerts_of_append alerts_of_temperature alerts_of_gas
        alerts_of_motion alerts_of_door)

lemma check_door_alerts:
  "alerts_of Door (fst (check_thresholds_and_alert th st d)) =
     (if ultrasonic_valid d \<noteq> 0 \<and> door_closed d \<noteq> 0 \<and> last_door_state st = 0 then
        [SendAlert ALERT_TYPE_DOOR_CLOSED ALERT_LEVEL_INFO (uint (distance_cm d)) ''Door closed'']
      else if ultrasonic_valid d \<noteq> 0 \<and> door_closed d = 0 \<and> last_door_state st \<noteq> 0 then
        [SendAlert ALERT_TYPE_DOOR_OPEN ALERT_LEVEL_INFO (uint (distance_cm d)) ''Door opened'']
      else [])"
  by (simp add: check_events alerts_of_append alerts_of_temperature alerts_of_gas
        alerts_of_motion alerts_of_door)

text \<open>While the door stays as the latch has it, valid ticks raise no door alert.\<close>

lemma door_quiet_run:
  assumes "\<forall>d\<in>set ds. ultrasonic_valid d \<noteq> 0 \<and> (door_closed d \<noteq> 0) = (last_door_state st \<noteq> 0)"
  shows "map (alerts_of Door) (alert_run th st ds) = replicate (length ds) []"
  using assms
proof (induction ds arbitrary: st)
  case Nil
  show ?case by simp
next
  case (Cons d ds)
  let ?st = "fst (snd (check_thresholds_and_alert th st d))"
  from Cons.prems have d: "ultrasonic_valid d \<noteq> 0"
      "(door_closed d \<noteq> 0) = (last_door_state st \<noteq> 0)"
    by simp_all
  then have latch: "(last_door_state ?st \<noteq> 0) = (last_door_state st \<noteq> 0)"
    by (simp add: check_door_latch)
  have "\<forall>x\<in>set ds. ultrasonic_valid x \<noteq> 0 \<and> (door_closed x \<noteq> 0) = (last_door_state ?st \<noteq> 0)"
    using Cons.prems by (simp add: latch)
  from Cons.IH [OF this] have "map (alerts_of Door) (alert_run th ?st ds) = replicate (length ds) []" .
  moreover from d have "alerts_of Door (fst (check_thresholds_and_alert th st d)) = []"
    by (auto simp add: check_door_alerts)
  ultimately show ?case by (simp add: alert_run_Cons)
qed

text \<open>
  C3. On a tick with a valid ultrasonic reading where the door is closed and the latch
  says open, exactly one alert "Door closed" is raised, and no door alert is raised on
  the following ticks as long as the readings are valid and the door stays closed.
  Symmetrically, an open door with the latch on closed raises exactly one alert
  "Door opened", and none on the following ticks while it stays open.
\<close>

theorem door_alert_edge_triggered:
  assumes "ultrasonic_valid d \<noteq> 0"
    and "\<forall>x\<in>set ds. ultrasonic_valid x \<noteq> 0 \<and> (door_closed x \<noteq> 0) = (door_closed d \<noteq> 0)"
  shows "(door_closed d \<noteq> 0 \<and> last_door_state st = 0 \<longrightarrow>
            map (alerts_of Door) (alert_run th st (d # ds)) =
              [SendAlert ALERT_TYPE_DOOR_CLOSED ALERT_LEVEL_INFO (uint (distance_cm d))
                 ''Door closed''] # replicate (length ds) [])
       \<and> (door_closed d = 0 \<and> last_door_state st \<noteq> 0 \<longrightarrow>
            map (alerts_of Door) (alert_run th st (d # ds)) =
              [SendAlert ALERT_TYPE_DOOR_OPEN ALERT_LEVEL_INFO (uint (distance_cm d))
                 ''Door opened''] # replicate (length ds) [])"
proof -
  let ?st = "fst (snd (check_thresholds_and_alert th st d))"
  have "last_door_state ?st = door_closed d"
    using assms(1) by (simp add: check_door_latch)
  with assms(2) have
    "\<forall>x\<in>set ds. ultrasonic_valid x \<noteq> 0 \<and> (door_closed x \<noteq> 0) = (last_door_state ?st \<noteq> 0)"
    by simp
  from door_quiet_run [OF this]
  have rest: "map (alerts_of Door) (alert_run th ?st ds) = replicate (length ds) []" .
  show ?thesis
    using assms(1) by (simp add: alert_run_Cons rest check_door_alerts)
qed

theorem door_alert_edge_triggered_witness:
  "ultrasonic_valid (door_at 8) \<noteq> 0
   \<and> ultrasonic_valid (door_at 7) \<noteq> 0 \<and> door_closed (door_at 7) \<noteq> 0
   \<and> door_closed (door_at 8) \<noteq> 0 \<and> last_door_state alert_statics_init = 0
   \<and> map (alerts_of Door)
        (alert_run thresholds alert_statics_init [door_at 8, door_at 8, door_at 7]) =
       [[SendAlert ALERT_TYPE_DOOR_CLOSED ALERT_LEVEL_INFO 8 ''Door closed''], [], []]"
proof -
  have h1: "ultrasonic_valid (door_at 8) \<noteq> 0"
    by (simp add: door_at_def thresholds_def g_sensor_data_init_def)
  have h2: "\<forall>x\<in>set [door_at 8, door_at 7].
         ultrasonic_valid x \<noteq> 0 \<and> (door_closed x \<noteq> 0) = (door_closed (door_at 8) \<noteq> 0)"
    by (simp add: door_at_def thresholds_def g_sensor_data_init_def)
  have h3: "door_closed (door_at 8) \<noteq> 0 \<and> last_door_state alert_statics_init = 0"
    by (simp add: door_at_def thresholds_def g_sensor_data_init_def alert_statics_init_def)
  have "distance_cm (door_at 8) = 8"
    by (simp add: door_at_def thresholds_def g_sensor_data_init_def)
  moreover have "ultrasonic_valid (door_at 7) \<noteq> 0 \<and> door_closed (door_at 7) \<noteq> 0"
    by (simp add: door_at_def thresholds_def g_sensor_data_init_def)
  ultimately show ?thesis
    using door_alert_edge_triggered [OF h1 h2, of alert_statics_init thresholds] h1 h3
    by simp
qed

text \<open>
  C4. On every tick of a run, whatever the statics: a valid temperature above the high
  threshold raises exactly one WARNING alert "above threshold", a valid temperature
  below the low threshold raises exactly one WARNING alert "below threshold", and an
  invalid reading or a temperature within the thresholds raises no temperature alert.
\<close>

theorem temperature_alert_level_triggered:
  assumes "temp_low_threshold th \<le> temp_high_threshold th" and "i < length ds"
  shows "(temp_sensor_valid (ds ! i) \<noteq> 0 \<and> temperature (ds ! i) > temp_high_threshold th \<longrightarrow>
            alerts_of Temperature (alert_run th st ds ! i) =
              [SendAlert ALERT_TYPE_TEMP_HIGH ALERT_LEVEL_WARNING (temperature (ds ! i))
                 ''Temperature above threshold''])
       \<and> (temp_sensor_valid (ds ! i) \<noteq> 0 \<and> temperature (ds ! i) < temp_low_threshold th \<longrightarrow>
            alerts_of Temperature (alert_run th st ds ! i) =
              [SendAlert ALERT_TYPE_TEMP_LOW ALERT_LEVEL_WARNING (temperature (ds ! i))
                 ''Temperature below threshold''])
       \<and> (temp_sensor_valid (ds ! i) = 0
            \<or> (temp_low_threshold th \<le> temperature (ds ! i)
                \<and> temperature (ds ! i) \<le> temp_high_threshold th) \<longrightarrow>
            alerts_of Temperature (alert_run th st ds ! i) = [])"
proof -
  from alert_run_nth [OF assms(2)] obtain st' where
    "alert_run th st ds ! i = fst (check_thresholds_and_alert th st' (ds ! i))" by blast
  then show ?thesis
    using assms(1) by (auto simp add: check_temperature_alerts)
qed

theorem temperature_alert_level_triggered_witness:
  "temp_low_threshold thresholds \<le> temp_high_threshold thresholds
   \<and> temp_sensor_valid (temperature_at 35) \<noteq> 0
   \<and> temperature (temperature_at 35) > temp_high_threshold thresholds
   \<and> alerts_of Temperature
       (alert_run thresholds alert_statics_init
          [temperature_at 35, temperature_at 35, temperature_at 35] ! 2) =
       [SendAlert ALERT_TYPE_TEMP_HIGH ALERT_LEVEL_WARNING 35 ''Temperature above threshold'']"
proof -
  have h1: "temp_low_threshold thresholds \<le> temp_high_threshold thresholds"
    by (simp add: thresholds_def)
  have h2: "2 < length [temperature_at 35, temperature_at 35, temperature_at 35]"
    by simp
  have h3: "temp_sensor_valid (temperature_at 35) \<noteq> 0
      \<and> temperature (temperature_at 35) = 35 \<and> temp_high_threshold thresholds = 30"
    by (simp add: temperature_at_def g_sensor_data_init_def thresholds_def)
  show ?thesis
    using temperature_alert_level_triggered [OF h1 h2, of alert_statics_init] h1 h3
    by simp
qed

text \<open>
  C9. When the validity flag of a category is 0, the tick raises no alert of that
  category whatever the stored value is: the events and the alert level of the tick
  do not depend on the stored value. The alert level of a tick is the highest severity
  among the alerts raised, so a category without alerts adds nothing to it.
\<close>

theorem invalid_category_raises_no_alert:
  "(temp_sensor_valid d = 0 \<longrightarrow>
      alerts_of Temperature (fst (check_thresholds_and_alert th st d)) = []
      \<and> fst (check_thresholds_and_alert th st (d\<lparr>temperature := t\<rparr>))
          = fst (check_thresholds_and_alert th st d)
      \<and> alert_level (snd (snd (check_thresholds_and_alert th st (d\<lparr>temperature := t\<rparr>)))) 
          = alert_level (snd (snd (check_thresholds_and_alert th st d))))
   \<and> (gas_sensor_valid d = 0 \<longrightarrow>
      alerts_of Gas (fst (check_thresholds_and_alert th st d)) = []
      \<and> fst (check_thresholds_and_alert th st (d\<lparr>gas_detected := g\<rparr>))
          = fst (check_thresholds_and_alert th st d)
      \<and> alert_level (snd (snd (check_thresholds_and_alert th st (d\<lparr>gas_detected := g\<rparr>)))) 
          = alert_level (snd (snd (check_thresholds_and_alert th st d))))
   \<and> (motion_sensor_valid d = 0 \<longrightarrow>
      alerts_of Motion (fst (check_thresholds_and_alert th st d)) = []
      \<and> fst (check_thresholds_and_alert th st (d\<lparr>motion_detected := m\<rparr>))
          = fst (check_thresholds_and_alert th st d)
      \<and> alert_level (snd (snd (check_thresholds_and_alert th st (d\<lparr>motion_detected := m\<rparr>)))) 
          = alert_level (snd (snd (check_thresholds_and_alert th st d))))
   \<and> (ultrasonic_valid d = 0 \<longrightarrow>
      alerts_of Door (fst (check_thresholds_and_alert th st d)) = []
      \<and> fst (check_thresholds_and_alert th st (d\<lparr>door_closed := c, distance_cm := x\<rparr>))
          = fst (check_thresholds_and_alert th st d)
      \<and> alert_level (snd (snd (check_thresholds_and_alert th st
            (d\<lparr>door_closed := c, distance_cm := x\<rparr>)))) 
          = alert_level (snd (snd (check_thresholds_and_alert th st d))))
   \<and> alert_level (snd (snd (check_thresholds_and_alert th st d)))
        = max_severity (fst (check_thresholds_and_alert th st d))"
proof (intro conjI impI)
  assume "temp_sensor_valid d = 0"
  then have "check_temperature th (d\<lparr>temperature := t\<rparr>) l = check_temperature th d l" for l
    by (simp add: check_temperature_def)
  moreover have "check_gas (d\<lparr>temperature := t\<rparr>) l = check_gas d l"
    and "check_motion st (d\<lparr>temperature := t\<rparr>) l = check_motion st d l"
    and "check_door st (d\<lparr>temperature := t\<rparr>) = check_door st d" for l
    by (simp_all add: check_gas_def check_motion_def check_door_def)
  ultimately show "fst (check_thresholds_and_alert th st (d\<lparr>temperature := t\<rparr>))
          = fst (check_thresholds_and_alert th st d)"
    by (simp add: check_events)
  then show "alert_level (snd (snd (check_thresholds_and_alert th st (d\<lparr>temperature := t\<rparr>)))) 
          = alert_level (snd (snd (check_thresholds_and_alert th st d)))"
    by (simp only: check_alert_level)
next
  assume "temp_sensor_valid d = 0"
  then show "alerts_of Temperature (fst (check_thresholds_and_alert th st d)) = []"
    by (simp add: check_temperature_alerts)
next
  assume "gas_sensor_valid d = 0"
  then show "alerts_of Gas (fst (check_thresholds_and_alert th st d)) = []"
    by (simp add: check_gas_alerts)
next
  assume "gas_sensor_valid d = 0"
  then have "check_gas (d\<lparr>gas_detected := g\<rparr>) l = check_gas d l" for l
    by (simp add: check_gas_def)
  moreover have "check_temperature th (d\<lparr>gas_detected := g\<rparr>) l = check_temperature th d l"
    and "check_motion st (d\<lparr>gas_detected := g\<rparr>) l = check_motion st d l"
    and "check_door st (d\<lparr>gas_detected := g\<rparr>) = check_door st d" for l
    by (simp_all add: check_temperature_def check_motion_def check_door_def)
  ultimately show "fst (check_thresholds_and_alert th st (d\<lparr>gas_detected := g\<rparr>))
          = fst (check_thresholds_and_alert th st d)"
    by (simp add: check_events)
  then show "alert_level (snd (snd (check_thresholds_and_alert th st (d\<lparr>gas_detected := g\<rparr>)))) 
          = alert_level (snd (snd (check_thresholds_and_alert th st d)))"
    by (simp only: check_alert_level)
next
  assume "motion_sensor_valid d = 0"
  then show "alerts_of Motion (fst (check_thresholds_and_alert th st d)) = []"
    by (simp add: check_motion_alerts)
next
  assume "motion_sensor_valid d = 0"
  then have "check_motion st (d\<lparr>motion_detected := m\<rparr>) l = check_motion st d l" for l
    by (simp add: check_motion_def)
  moreover have "check_temperature th (d\<lparr>motion_detected := m\<rparr>) l = check_temperature th d l"
    and "check_gas (d\<lparr>motion_detected := m\<rparr>) l = check_gas d l"
    and "check_door st (d\<lparr>motion_detected := m\<rparr>) = check_door st d" for l
    by (simp_all add: check_temperature_def check_gas_def check_door_def)
  ultimately show "fst (check_thresholds_and_alert th st (d\<lparr>motion_detected := m\<rparr>))
          = fst (check_thresholds_and_alert th st d)"
    by (simp add: check_events)
  then show "alert_level (snd (snd (check_thresholds_and_alert th st (d\<lparr>motion_detected := m\<rparr>)))) 
          = alert_level (snd (snd (check_thresholds_and_alert th st d)))"
    by (simp only: check_alert_level)
next
  assume "ultrasonic_valid d = 0"
  then show "alerts_of Door (fst (check_thresholds_and_alert th st d)) = []"
    by (simp add: check_door_alerts)
next
  let ?d = "d\<lparr>door_closed := c, distance_cm := x\<rparr>"
  assume "ultrasonic_valid d = 0"
  then have "check_door st ?d = check_door st d"
    by (simp add: check_door_def)
  moreover have "check_temperature th ?d l = check_temperature th d l"
    and "check_gas ?d l = check_gas d l"
    and "check_motion st ?d l = check_motion st d l" for l
    by (simp_all add: check_temperature_def check_gas_def check_motion_def)
  ultimately show "fst (check_thresholds_and_alert th st ?d)
          = fst (check_thresholds_and_alert th st d)"
    by (simp add: check_events)
  then show "alert_level (snd (snd (check_thresholds_and_alert th st ?d))) 
          = alert_level (snd (snd (check_thresholds_and_alert th st d)))"
    by (simp only: check_alert_level)
next
  show "alert_level (snd (snd (check_thresholds_and_alert th st d)))
        = max_severity (fst (check_thresholds_and_alert th st d))"
    by (rule check_alert_level)
qed

theorem invalid_category_raises_no_alert_witness:
  "temp_sensor_valid g_sensor_data_init = 0 \<and> gas_sensor_valid g_sensor_data_init = 0
   \<and> motion_sensor_valid g_sensor_data_init = 0 \<and> ultrasonic_valid g_sensor_data_init = 0
   \<and> fst (check_thresholds_and_alert thresholds alert_statics_init
        (g_sensor_data_init\<lparr>temperature := 99\<rparr>)) = []
   \<and> fst (check_thresholds_and_alert thresholds alert_statics_init
        (g_sensor_data_init\<lparr>gas_detected := 1\<rparr>)) = []
   \<and> fst (check_thresholds_and_alert thresholds alert_statics_init
        (g_sensor_data_init\<lparr>motion_detected := 1\<rparr>)) = []
   \<and> fst (check_thresholds_and_alert thresholds alert_statics_init
        (g_sensor_data_init\<lparr>door_closed := 1, distance_cm := 5\<rparr>)) = []
   \<and> alert_level (snd (snd (check_thresholds_and_alert thresholds alert_statics_init
        (g_sensor_data_init\<lparr>temperature := 99\<rparr>)))) = ALERT_LEVEL_INFO"
proof -
  have v: "temp_sensor_valid g_sensor_data_init = 0 \<and> gas_sensor_valid g_sensor_data_init = 0
   \<and> motion_sensor_valid g_sensor_data_init = 0 \<and> ultrasonic_valid g_sensor_data_init = 0"
    by (simp add: g_sensor_data_init_def)
  have e: "fst (check_thresholds_and_alert thresholds alert_statics_init g_sensor_data_init) = []"
    by (simp add: check_events check_temperature_def check_gas_def check_motion_def
          check_door_def g_sensor_data_init_def)
  have l: "max_severity [] = ALERT_LEVEL_INFO" by simp
  show ?thesis
    using invalid_category_raises_no_alert
      [where d = g_sensor_data_init and th = thresholds and st = alert_statics_init
         and t = 99 and g = 1 and m = 1 and c = 1 and x = 5] v e l
    by simp
qed

lemma temperature_thread_failures:
  "\<forall>r\<in>set rs. fst r \<noteq> 0 \<Longrightarrow>
     temperature_sensor_thread rs g = (if rs = [] then g else g\<lparr>temp_sensor_valid := 0\<rparr>)"
proof (induction rs arbitrary: g)
  case Nil
  show ?case by simp
next
  case (Cons r rs)
  obtain rc temp hum where r: "r = (rc, temp, hum)" by (cases r)
  from Cons.prems have "rc \<noteq> 0" and "\<forall>r\<in>set rs. fst r \<noteq> 0" by (simp_all add: r)
  with Cons.IH [of "g\<lparr>temp_sensor_valid := 0\<rparr>"] show ?case by (simp add: r)
qed

lemma gas_thread_failures:
  "\<forall>r\<in>set rs. fst r \<noteq> 0 \<Longrightarrow>
     gas_sensor_thread rs g = (if rs = [] then g else g\<lparr>gas_sensor_valid := 0\<rparr>)"
proof (induction rs arbitrary: g)
  case Nil
  show ?case by simp
next
  case (Cons r rs)
  obtain rc detected where r: "r = (rc, detected)" by (cases r)
  from Cons.prems have "rc \<noteq> 0" and "\<forall>r\<in>set rs. fst r \<noteq> 0" by (simp_all add: r)
  with Cons.IH [of "g\<lparr>gas_sensor_valid := 0\<rparr>"] show ?case by (simp add: r)
qed

lemma motion_thread_failures:
  "\<forall>r\<in>set rs. fst r \<noteq> 0 \<Longrightarrow>
     motion_sensor_thread rs g = (if rs = [] then g else g\<lparr>motion_sensor_valid := 0\<rparr>)"
proof (induction rs arbitrary: g)
  case Nil
  show ?case by simp
next
  case (Cons r rs)
  obtain rc detected where r: "r = (rc, detected)" by (cases r)
  from Cons.prems have "rc \<noteq> 0" and "\<forall>r\<in>set rs. fst r \<noteq> 0" by (simp_all add: r)
  with Cons.IH [of "g\<lparr>motion_sensor_valid := 0\<rparr>"] show ?case by (simp add: r)
qed

lemma ultrasonic_thread_failures:
  "\<forall>r\<in>set rs. fst r \<noteq> 0 \<Longrightarrow>
     ultrasonic_sensor_thread th rs g = (if rs = [] then g else g\<lparr>ultrasonic_valid := 0\<rparr>)"
proof (induction rs arbitrary: g)
  case Nil
  show ?case by simp
next
  case (Cons r rs)
  obtain rc distance where r: "r = (rc, distance)" by (cases r)
  from Cons.prems have "rc \<noteq> 0" and "\<forall>r\<in>set rs. fst r \<noteq> 0" by (simp_all add: r)
  with Cons.IH [of "g\<lparr>ultrasonic_valid := 0\<rparr>"] show ?case by (simp add: r)
qed

text \<open>
  C8. For each of the four producers: when the decoder fails on \<open>N\<close> consecutive
  iterations, then after each of these iterations (the \<open>k\<close>-th, for \<open>0 < k \<le> N\<close>) the
  shared data is what it was before the first of them, but for the validity flag of
  that sensor, which is 0. So the stored values of that sensor and all the fields of
  the other sensors are as before.
\<close>

theorem failed_reads_keep_last_values:
  assumes "0 < k"
  shows "(k \<le> length ts \<and> (\<forall>r\<in>set ts. fst r \<noteq> 0) \<longrightarrow>
            temperature_sensor_thread (take k ts) g = g\<lparr>temp_sensor_valid := 0\<rparr>)
       \<and> (k \<le> length gs \<and> (\<forall>r\<in>set gs. fst r \<noteq> 0) \<longrightarrow>
            gas_sensor_thread (take k gs) g = g\<lparr>gas_sensor_valid := 0\<rparr>)
       \<and> (k \<le> length ms \<and> (\<forall>r\<in>set ms. fst r \<noteq> 0) \<longrightarrow>
            motion_sensor_thread (take k ms) g = g\<lparr>motion_sensor_valid := 0\<rparr>)
       \<and> (k \<le> length us \<and> (\<forall>r\<in>set us. fst r \<noteq> 0) \<longrightarrow>
            ultrasonic_sensor_thread th (take k us) g = g\<lparr>ultrasonic_valid := 0\<rparr>)"
proof (intro conjI impI)
  assume "k \<le> length ts \<and> (\<forall>r\<in>set ts. fst r \<noteq> 0)"
  with assms have "take k ts \<noteq> []" and "\<forall>r\<in>set (take k ts). fst r \<noteq> 0"
    by (auto dest: in_set_takeD)
  then show "temperature_sensor_thread (take k ts) g = g\<lparr>temp_sensor_valid := 0\<rparr>"
    by (simp add: temperature_thread_failures)
next
  assume "k \<le> length gs \<and> (\<forall>r\<in>set gs. fst r \<noteq> 0)"
  with assms have "take k gs \<noteq> []" and "\<forall>r\<in>set (take k gs). fst r \<noteq> 0"
    by (auto dest: in_set_takeD)
  then show "gas_sensor_thread (take k gs) g = g\<lparr>gas_sensor_valid := 0\<rparr>"
    by (simp add: gas_thread_failures)
next
  assume "k \<le> length ms \<and> (\<forall>r\<in>set ms. fst r \<noteq> 0)"
  with assms have "take k ms \<noteq> []" and "\<forall>r\<in>set (take k ms). fst r \<noteq> 0"
    by (auto dest: in_set_takeD)
  then show "motion_sensor_thread (take k ms) g = g\<lparr>motion_sensor_valid := 0\<rparr>"
    by (simp add: motion_thread_failures)
next
  assume "k \<le> length us \<and> (\<forall>r\<in>set us. fst r \<noteq> 0)"
  with assms have "take k us \<noteq> []" and "\<forall>r\<in>set (take k us). fst r \<noteq> 0"
    by (auto dest: in_set_takeD)
  then show "ultrasonic_sensor_thread th (take k us) g = g\<lparr>ultrasonic_valid := 0\<rparr>"
    by (simp add: ultrasonic_thread_failures)
qed

theorem failed_reads_keep_last_values_witness:
  "temperature_sensor_thread (take 2 [(-1, 7, 7), (-1, 8, 8), (-1, 9, 9)]) (temperature_at 25)
     = (temperature_at 25)\<lparr>temp_sensor_valid := 0\<rparr>
   \<and> temperature (temperature_sensor_thread [(-1, 7, 7), (-1, 8, 8)] (temperature_at 25)) = 25
   \<and> gas_sensor_thread (take 2 [(-1, True), (-1, True)]) (temperature_at 25)
     = (temperature_at 25)\<lparr>gas_sensor_valid := 0\<rparr>
   \<and> motion_sensor_thread (take 2 [(-1, True), (-1, True)]) (temperature_at 25)
     = (temperature_at 25)\<lparr>motion_sensor_valid := 0\<rparr>
   \<and> ultrasonic_sensor_thread thresholds (take 2 [(-1, 3), (-1, 4)]) (door_at 15)
     = (door_at 15)\<lparr>ultrasonic_valid := 0\<rparr>
   \<and> distance_cm (ultrasonic_sensor_thread thresholds [(-1, 3), (-1, 4)] (door_at 15)) = 15"
proof -
  have k: "0 < (2::nat)" by simp
  have "temperature (temperature_at 25) = 25" and "distance_cm (door_at 15) = 15"
    by (simp_all add: temperature_at_def door_at_def g_sensor_data_init_def thresholds_def)
  then show ?thesis
    using failed_reads_keep_last_values [OF k,
      where ts = "[(-1, 7, 7), (-1, 8, 8), (-1, 9, 9)]" and gs = "[(-1, True), (-1, True)]"
        and ms = "[(-1, True), (-1, True)]" and us = "[(-1, 3), (-1, 4)]"
        and g = "temperature_at 25" and th = thresholds]
      failed_reads_keep_last_values [OF k,
      where ts = "[]" and gs = "[]" and ms = "[]" and us = "[(-1, 3), (-1, 4)]"
        and g = "door_at 15" and th = thresholds]
    by simp
qed

text \<open>
  C1. The first three ticks after the start, with temperature 32, no gas, no motion,
  and the door at 15 cm, 15 cm and 8 cm (threshold 10 cm), all readings valid. The
  alerts are as the scenario says: a WARNING for the temperature on each tick, and an
  INFO "Door closed" on the third. The \<open>alert_level\<close> of the snapshot messages is INFO,
  WARNING, WARNING: the message of a tick is filled before the thresholds are checked,
  so it carries the level computed on the tick before.
\<close>

theorem end_to_end_three_ticks:
  "map (filter is_alert) (analyzer_run thresholds analyzer_init
       [(scenario_reading 15, 1000), (scenario_reading 15, 1002), (scenario_reading 8, 1004)]) =
     [[SendAlert ALERT_TYPE_TEMP_HIGH ALERT_LEVEL_WARNING 32 ''Temperature above threshold''],
      [SendAlert ALERT_TYPE_TEMP_HIGH ALERT_LEVEL_WARNING 32 ''Temperature above threshold''],
      [SendAlert ALERT_TYPE_TEMP_HIGH ALERT_LEVEL_WARNING 32 ''Temperature above threshold'',
       SendAlert ALERT_TYPE_DOOR_CLOSED ALERT_LEVEL_INFO 8 ''Door closed'']]
   \<and> map outbound_alert_level (analyzer_run thresholds analyzer_init
       [(scenario_reading 15, 1000), (scenario_reading 15, 1002), (scenario_reading 8, 1004)]) =
     [[ALERT_LEVEL_INFO], [ALERT_LEVEL_WARNING], [ALERT_LEVEL_WARNING]]"
  by (simp add: analyzer_init_def alert_statics_init_def g_sensor_data_init_def
        scenario_reading_def thresholds_def producers_publish_def aggregator_tick_def snapshot_msg_def
        check_thresholds_and_alert_def check_temperature_def check_gas_def check_motion_def
        check_door_def Let_def alert_consts)

lemma inside_lock_append:
  "\<forall>e\<in>set evs. alert_or_pulse e \<Longrightarrow>
     alerts_inside_lock True (evs @ rest) = alerts_inside_lock True rest"
proof (induction evs)
  case Nil
  show ?case by simp
next
  case (Cons e evs)
  then show ?case by (cases e) simp_all
qed

lemma check_sends_alerts_and_pulses:
  "\<forall>e\<in>set (fst (check_thresholds_and_alert th st d)). alert_or_pulse e"
proof -
  have "\<forall>e\<in>set (fst (check_temperature th d l)). alert_or_pulse e" for l
    by (auto simp add: check_temperature_def)
  moreover have "\<forall>e\<in>set (fst (check_gas d l)). alert_or_pulse e" for l
    by (auto simp add: check_gas_def)
  moreover have "\<forall>e\<in>set (fst (check_motion st d l)). alert_or_pulse e" for l
    by (auto simp add: check_motion_def)
  moreover have "\<forall>e\<in>set (fst (check_door st d)). alert_or_pulse e"
    by (auto simp add: check_door_def)
  ultimately show ?thesis
    by (simp add: check_events ball_Un)
qed

lemma aggregator_tick_events:
  "fst (aggregator_tick th now s) =
     MutexLock # fst (check_thresholds_and_alert th (statics s) (g_sensor_data s))
       @ [MutexUnlock, SendData (snapshot_msg now (g_sequence_num s) (g_sensor_data s))]"
  by (simp add: aggregator_tick_def Let_def split_beta)

lemma check_stores_alert_level:
  "snd (snd (check_thresholds_and_alert th st d)) =
     d\<lparr>alert_level := max_severity (fst (check_thresholds_and_alert th st d))\<rparr>"
proof -
  let ?l = "snd (snd (check_motion st d
         (snd (check_gas d (snd (check_temperature th d ALERT_LEVEL_INFO))))))"
  have d: "snd (snd (check_thresholds_and_alert th st d)) = d\<lparr>alert_level := ?l\<rparr>"
    by (rule check_data)
  then have "alert_level (snd (snd (check_thresholds_and_alert th st d))) = ?l"
    by simp
  then have "?l = max_severity (fst (check_thresholds_and_alert th st d))"
    by (simp only: check_alert_level)
  with d show ?thesis by simp
qed

lemma aggregator_tick_state:
  "snd (aggregator_tick th now s) =
     \<lparr>statics = fst (snd (check_thresholds_and_alert th (statics s) (g_sensor_data s))),
      g_sequence_num = g_sequence_num s + 1,
      g_sensor_data = snd (snd (check_thresholds_and_alert th (statics s) (g_sensor_data s)))\<rparr>"
  by (simp add: aggregator_tick_def Let_def split_beta)

text \<open>
  C5, as the code has it. A tick takes the mutex, fills the local message from the
  shared data, runs \<open>check_thresholds_and_alert\<close> on the shared data, releases the mutex
  and then delivers the message. So every alert and pulse of a tick is sent while the
  mutex is held; only the delivery of the snapshot message happens after the release.
  The evaluation works on the shared data itself: after the tick the shared data is
  what it was, but for \<open>alert_level\<close>, which holds the highest severity among the alerts
  that the tick raised; the statics are those that the evaluation leaves, and the
  sequence number has advanced by one.
\<close>

theorem alert_evaluation_under_lock:
  "fst (aggregator_tick th now s) =
     MutexLock # fst (check_thresholds_and_alert th (statics s) (g_sensor_data s))
       @ [MutexUnlock, SendData (snapshot_msg now (g_sequence_num s) (g_sensor_data s))]
   \<and> alerts_inside_lock False (fst (aggregator_tick th now s))
   \<and> snd (aggregator_tick th now s) =
       \<lparr>statics = fst (snd (check_thresholds_and_alert th (statics s) (g_sensor_data s))),
        g_sequence_num = g_sequence_num s + 1,
        g_sensor_data = (g_sensor_data s)\<lparr>alert_level :=
          max_severity (fst (check_thresholds_and_alert th (statics s) (g_sensor_data s)))\<rparr>\<rparr>"
  by (simp add: aggregator_tick_events inside_lock_append [OF check_sends_alerts_and_pulses]
        aggregator_tick_state check_stores_alert_level [symmetric])

text \<open>
  C5, as stated, fails: on a tick with a valid temperature of 32 the alert is sent
  between \<open>MutexLock\<close> and \<open>MutexUnlock\<close>.
\<close>

theorem alert_evaluation_outside_lock_counterexample:
  "\<not> alerts_outside_lock False
       (fst (aggregator_tick thresholds 1000 (analyzer_init\<lparr>g_sensor_data := temperature_at 32\<rparr>)))"
  by (simp add: aggregator_tick_events check_events check_temperature_def
        temperature_at_def g_sensor_data_init_def thresholds_def analyzer_init_def)

section \<open>Properties of the single-wire decoder\<close>

lemma read_bits_length:
  "read_bits i data w = Some (Inr data', w') \<Longrightarrow> length data' = length data"
proof (induction i data w rule: read_bits.induct)
  case (1 i data w)
  show ?case
  proof (cases "i < 40")
    case False
    with "1.prems" show ?thesis by simp
  next
    case True
    from "1.prems" True obtain bit w1 where b: "dht_read_bit w = Some (bit, w1)"
      by (cases "dht_read_bit w") (auto simp add: read_bits.simps [of i])
    from "1.prems" True b have nb: "\<not> bit < 0"
      by (auto simp add: read_bits.simps [of i] split: if_splits)
    with "1.prems" True b have
      "read_bits (i + 1) (data[i div 8 := push_bit 1 (data ! (i div 8)) OR word_of_int bit]) w1
         = Some (Inr data', w')"
      by (simp add: read_bits.simps [of i])
    from "1.IH" [OF True _ _ nb this, of "(bit, w1)"] b show ?thesis by simp
  qed
qed

lemma dht_receive_length:
  assumes "dht_receive w = Some (Inr data, w')"
  shows "length data = 5"
proof -
  from assms obtain w8 where "read_bits 0 [0, 0, 0, 0, 0] w8 = Some (Inr data, w')"
    by (cases "dht_handshake w") (auto simp add: dht_receive_def split: sum.splits)
  from read_bits_length [OF this] show ?thesis by simp
qed

lemma checksum_mod_256:
  fixes a b c d e :: u8
  shows "(a + b + c + d = e) = (unat e = (unat a + unat b + unat c + unat d) mod 256)"
proof -
  have "unat (a + b + c + d) = (unat a + unat b + unat c + unat d) mod 256"
    by (simp add: unat_word_ariths mod_simps)
  then show ?thesis
    by (metis word_unat_eq_iff)
qed


lemma temperature_sensor_read_received:
  "dht_receive w = Some (Inr data, w') \<Longrightarrow>
     temperature_sensor_read w temp_var hum_var = Some (dht_verify data temp_var hum_var, w')"
  by (simp add: temperature_sensor_read_def)

text \<open>
  C2. When the 40 bits have been received (steps 1 to 3 yield five bytes), the read
  succeeds, with the readings taken from the bytes 2 and 0, if the fifth byte is the
  sum of the first four modulo 256; otherwise it fails at the checksum test, returns -1
  and leaves the variables of the caller as they were.
\<close>

theorem checksum_decides_decode:
  assumes "dht_receive w = Some (Inr data, w')"
  shows "length data = 5
       \<and> (unat (data ! 4) = (unat (data ! 0) + unat (data ! 1) + unat (data ! 2) + unat (data ! 3)) mod 256 \<longrightarrow>
            temperature_sensor_read w (Some t) (Some h)
              = Some ((Inr (), Some (uint (data ! 2)), Some (uint (data ! 0))), w'))
       \<and> (unat (data ! 4) \<noteq> (unat (data ! 0) + unat (data ! 1) + unat (data ! 2) + unat (data ! 3)) mod 256 \<longrightarrow>
            temperature_sensor_read w temp_var hum_var
              = Some ((Inl ChecksumError, temp_var, hum_var), w')
            \<and> return_code (Inl ChecksumError) = -1)"
  using dht_receive_length [OF assms]
  by (simp add: temperature_sensor_read_received [OF assms] dht_verify_def
        checksum_mod_256 [symmetric])

lemma receive_good_frame:
  "dht_receive (dht_script (dht_frame [40, 0, 32, 0, 72])) =
     Some (Inr [40, 0, 32, 0, 72],
       \<lparr>gpio_rets = [], gpio_inputs = [], clock = [], cycles_per_sec = 54000000\<rparr>)"
  by code_simp

lemma receive_bad_frame:
  "dht_receive (dht_script (dht_frame [40, 0, 32, 0, 73])) =
     Some (Inr [40, 0, 32, 0, 73],
       \<lparr>gpio_rets = [], gpio_inputs = [], clock = [], cycles_per_sec = 54000000\<rparr>)"
  by code_simp

theorem checksum_decides_decode_witness:
  "temperature_sensor_read (dht_script (dht_frame [40, 0, 32, 0, 72])) (Some 1) (Some 2)
     = Some ((Inr (), Some 32, Some 40),
         \<lparr>gpio_rets = [], gpio_inputs = [], clock = [], cycles_per_sec = 54000000\<rparr>)
   \<and> temperature_sensor_read (dht_script (dht_frame [40, 0, 32, 0, 73])) (Some 1) (Some 2)
     = Some ((Inl ChecksumError, Some 1, Some 2),
         \<lparr>gpio_rets = [], gpio_inputs = [], clock = [], cycles_per_sec = 54000000\<rparr>)"
  using checksum_decides_decode [OF receive_good_frame, of 1 2 "Some 1" "Some 2"]
    checksum_decides_decode [OF receive_bad_frame, of 1 2 "Some 1" "Some 2"]
  by simp

text \<open>
  C10. Whenever \<open>temperature_sensor_read\<close> returns a nonzero code (a failed GPIO call, a
  wait that timed out or failed, or a checksum mismatch) the two variables of the
  caller hold what they held before the call. When it returns 0, the five bytes were
  received and their checksum holds: only then are the variables written.
\<close>

theorem failed_decode_writes_nothing:
  assumes "temperature_sensor_read w temp_var hum_var = Some ((r, temp_var', hum_var'), w')"
  shows "(return_code r \<noteq> 0 \<longrightarrow> return_code r = -1 \<and> temp_var' = temp_var \<and> hum_var' = hum_var)
       \<and> (return_code r = 0 \<longrightarrow>
            (\<exists>data. dht_receive w = Some (Inr data, w')
               \<and> data ! 0 + data ! 1 + data ! 2 + data ! 3 = data ! 4))"
proof (cases "dht_receive w")
  case None
  with assms show ?thesis by (simp add: temperature_sensor_read_def)
next
  case (Some p)
  obtain res w1 where p: "p = (res, w1)" by (cases p)
  show ?thesis
  proof (cases res)
    case (Inl e)
    with assms Some p show ?thesis
      by (auto simp add: temperature_sensor_read_def)
  next
    case (Inr data)
    with assms Some p show ?thesis
      by (auto simp add: temperature_sensor_read_def dht_verify_def Let_def split: if_splits)
  qed
qed

lemma read_line_error:
  "temperature_sensor_read
     \<lparr>gpio_rets = [0, -1], gpio_inputs = [], clock = [], cycles_per_sec = 54000000\<rparr>
     (Some 1) (Some 2)
   = Some ((Inl LineError, Some 1, Some 2),
       \<lparr>gpio_rets = [], gpio_inputs = [], clock = [], cycles_per_sec = 54000000\<rparr>)"
  by code_simp

lemma read_timeout:
  "temperature_sensor_read
     \<lparr>gpio_rets = [0, 0, 0, 0], gpio_inputs = [(0, GPIO_HIGH), (0, GPIO_HIGH)],
      clock = [1000, 3160, 3200, 8600, 14054], cycles_per_sec = 54000000\<rparr>
     (Some 1) (Some 2)
   = Some ((Inl Timeout, Some 1, Some 2),
       \<lparr>gpio_rets = [], gpio_inputs = [], clock = [], cycles_per_sec = 54000000\<rparr>)"
  by code_simp

lemma read_checksum_error:
  "temperature_sensor_read (dht_script (dht_frame [40, 0, 32, 0, 73])) (Some 1) (Some 2)
     = Some ((Inl ChecksumError, Some 1, Some 2),
         \<lparr>gpio_rets = [], gpio_inputs = [], clock = [], cycles_per_sec = 54000000\<rparr>)"
  by (simp add: temperature_sensor_read_received [OF receive_bad_frame] dht_verify_def)

theorem failed_decode_writes_nothing_witness:
  "temperature_sensor_read
     \<lparr>gpio_rets = [0, -1], gpio_inputs = [], clock = [], cycles_per_sec = 54000000\<rparr>
     (Some 1) (Some 2)
   = Some ((Inl LineError, Some 1, Some 2),
       \<lparr>gpio_rets = [], gpio_inputs = [], clock = [], cycles_per_sec = 54000000\<rparr>)
   \<and> return_code (Inl LineError) = -1
   \<and> temperature_sensor_read
     \<lparr>gpio_rets = [0, 0, 0, 0], gpio_inputs = [(0, GPIO_HIGH), (0, GPIO_HIGH)],
      clock = [1000, 3160, 3200, 8600, 14054], cycles_per_sec = 54000000\<rparr>
     (Some 1) (Some 2)
   = Some ((Inl Timeout, Some 1, Some 2),
       \<lparr>gpio_rets = [], gpio_inputs = [], clock = [], cycles_per_sec = 54000000\<rparr>)
   \<and> return_code (Inl Timeout) = -1
   \<and> temperature_sensor_read (dht_script (dht_frame [40, 0, 32, 0, 73])) (Some 1) (Some 2)
     = Some ((Inl ChecksumError, Some 1, Some 2),
         \<lparr>gpio_rets = [], gpio_inputs = [], clock = [], cycles_per_sec = 54000000\<rparr>)
   \<and> return_code (Inl ChecksumError) = -1"
proof -
  have nz: "return_code (Inl e) \<noteq> 0" for e by simp
  from failed_decode_writes_nothing [OF read_line_error, THEN conjunct1, rule_format, OF nz]
  have 1: "return_code (Inl LineError) = -1" by (rule conjunct1)
  from failed_decode_writes_nothing [OF read_timeout, THEN conjunct1, rule_format, OF nz]
  have 2: "return_code (Inl Timeout) = -1" by (rule conjunct1)
  from failed_decode_writes_nothing [OF read_checksum_error, THEN conjunct1, rule_format, OF nz]
  have 3: "return_code (Inl ChecksumError) = -1" by (rule conjunct1)
  from read_line_error 1 read_timeout 2 read_checksum_error 3 show ?thesis
    by (intro conjI)
qed






section \<open>Properties of the pulse-echo decoder\<close>

lemma rounding_mono: "rounding r \<Longrightarrow> x \<le> y \<Longrightarrow> r x \<le> r y"
  by (simp add: rounding_def mono_def)

lemma rounding_int: "rounding r \<Longrightarrow> \<bar>k\<bar> \<le> 2 ^ 24 \<Longrightarrow> r (of_int k) = of_int k"
  by (simp add: rounding_def)

lemma rounding_range:
  assumes "rounding r" and "0 \<le> x" and "x \<le> of_int k" and "\<bar>k\<bar> \<le> 2 ^ 24"
  shows "0 \<le> r x \<and> r x \<le> of_int k"
proof -
  from rounding_int [OF assms(1), of 0] have "r 0 = 0" by simp
  with rounding_mono [OF assms(1) assms(2)] have "0 \<le> r x" by simp
  moreover from rounding_mono [OF assms(1) assms(3)] rounding_int [OF assms(1) assms(4)]
  have "r x \<le> of_int k" by simp
  ultimately show ?thesis by simp
qed

lemma speed_rounded:
  assumes "rounding r"
  shows "0 \<le> r SPEED_OF_SOUND_CM_PER_US \<and> r SPEED_OF_SOUND_CM_PER_US \<le> 1"
  using rounding_range [OF assms, of SPEED_OF_SOUND_CM_PER_US 1]
  by (simp add: SPEED_OF_SOUND_CM_PER_US_def)

lemma distance_float_mono:
  assumes "rounding (to_double fp)" and "rounding (to_float fp)" and "d1 \<le> d2"
  shows "distance_float fp d1 \<le> distance_float fp d2"
proof -
  let ?c = "to_double fp SPEED_OF_SOUND_CM_PER_US"
  from speed_rounded [OF assms(1)] have "0 \<le> ?c" by simp
  with assms(3) have "d1 * ?c \<le> d2 * ?c" by (rule mult_right_mono)
  then have "to_double fp (d1 * ?c) / 2 \<le> to_double fp (d2 * ?c) / 2"
    using rounding_mono [OF assms(1)] by simp
  then have "to_double fp (to_double fp (d1 * ?c) / 2) \<le> to_double fp (to_double fp (d2 * ?c) / 2)"
    by (rule rounding_mono [OF assms(1)])
  then show ?thesis
    unfolding distance_float_def by (rule rounding_mono [OF assms(2)])
qed

lemma distance_float_range:
  assumes "rounding (to_double fp)" and "rounding (to_float fp)"
    and "0 \<le> d" and "d \<le> 60000"
  shows "0 \<le> distance_float fp d \<and> distance_float fp d \<le> 30000"
proof -
  let ?c = "to_double fp SPEED_OF_SOUND_CM_PER_US"
  from speed_rounded [OF assms(1)] have c: "0 \<le> ?c" "?c \<le> 1" by simp_all
  from assms(3) c(1) have "0 \<le> d * ?c" by simp
  moreover from assms(3,4) c have "d * ?c \<le> 60000 * 1"
    by (intro mult_mono) simp_all
  ultimately have "0 \<le> to_double fp (d * ?c) \<and> to_double fp (d * ?c) \<le> of_int 60000"
    by (intro rounding_range [OF assms(1)]) simp_all
  then have "0 \<le> to_double fp (d * ?c) / 2" and "to_double fp (d * ?c) / 2 \<le> of_int 30000"
    by simp_all
  then have "0 \<le> to_double fp (to_double fp (d * ?c) / 2)
      \<and> to_double fp (to_double fp (d * ?c) / 2) \<le> of_int 30000"
    by (intro rounding_range [OF assms(1)]) simp_all
  then have "0 \<le> to_float fp (to_double fp (to_double fp (d * ?c) / 2))
      \<and> to_float fp (to_double fp (to_double fp (d * ?c) / 2)) \<le> of_int 30000"
    by (intro rounding_range [OF assms(2)]) simp_all
  then show ?thesis by (simp add: distance_float_def)
qed

lemma u16_of_float_in_range:
  assumes "0 \<le> x" and "x \<le> 30000"
  shows "u16_of_float x = Some (word_of_int \<lfloor>x\<rfloor>) \<and> uint (word_of_int \<lfloor>x\<rfloor> :: u16) = \<lfloor>x\<rfloor>"
proof -
  from assms have "0 \<le> \<lfloor>x\<rfloor>" and "\<lfloor>x\<rfloor> \<le> 30000"
    by (simp_all add: floor_le_iff le_floor_iff)
  then have "uint (word_of_int \<lfloor>x\<rfloor> :: u16) = \<lfloor>x\<rfloor>"
    by (simp add: uint_word_of_int take_bit_int_eq_self)
  with assms show ?thesis by (simp add: u16_of_float_def)
qed

lemma double_rounding_mono: "double_rounding r \<Longrightarrow> x \<le> y \<Longrightarrow> r x \<le> r y"
  by (simp add: double_rounding_def mono_def)

lemma double_rounding_int:
  "double_rounding r \<Longrightarrow> \<bar>k\<bar> \<le> 2 ^ 53 \<Longrightarrow> r (of_int k) = of_int k"
  by (simp add: double_rounding_def)

lemma double_rounding_error:
  "double_rounding r \<Longrightarrow> 1 / 2 ^ 10 \<le> \<bar>x\<bar> \<Longrightarrow> \<bar>x\<bar> \<le> 2 ^ 60 \<Longrightarrow> \<bar>r x - x\<bar> \<le> \<bar>x\<bar> / 2 ^ 52"
  by (simp add: double_rounding_def)

lemma double_rounding_rounding: "double_rounding r \<Longrightarrow> rounding r"
  by (simp add: double_rounding_def rounding_def)

lemma double_rounding_exact: "double_rounding (\<lambda>x. x)"
  by (simp add: double_rounding_def mono_def)

text \<open>The quotient of the nanoseconds by 1000, in \<open>double\<close>.\<close>

lemma nsec_quotient_error:
  assumes r: "double_rounding r" and N: "- 1000000000 < N" "N < 1000000000"
  shows "\<bar>r (r (of_int N) / 1000) - of_int N / 1000\<bar> \<le> 1 / 1000000000"
proof -
  from N have "\<bar>N\<bar> \<le> 2 ^ 53" by simp
  from double_rounding_int [OF r this] have rN: "r (of_int N) = of_int N" .
  show ?thesis
  proof (cases "N = 0")
    case True
    with double_rounding_int [OF r, of 0] show ?thesis by simp
  next
    case False
    let ?x = "real_of_int N / 1000"
    from False have "1 \<le> \<bar>N\<bar>" by simp
    then have "1 \<le> \<bar>real_of_int N\<bar>" by linarith
    then have lo: "1 / 2 ^ 10 \<le> \<bar>?x\<bar>" by simp
    from N have "\<bar>N\<bar> \<le> 1000000000" by simp
    then have "\<bar>real_of_int N\<bar> \<le> 1000000000" by linarith
    then have hi: "\<bar>?x\<bar> \<le> 1000000" by simp
    then have hi': "\<bar>?x\<bar> \<le> 2 ^ 60" by simp
    from double_rounding_error [OF r lo hi'] have "\<bar>r ?x - ?x\<bar> \<le> \<bar>?x\<bar> / 2 ^ 52" .
    also from hi have "\<bar>?x\<bar> / 2 ^ 52 \<le> 1000000 / 2 ^ 52" by (simp add: divide_right_mono)
    also have "(1000000 :: real) / 2 ^ 52 \<le> 1 / 1000000000" by simp
    finally show ?thesis by (simp add: rN)
  qed
qed

lemma elapsed_double_error:
  assumes r: "double_rounding (to_double fp)"
    and v: "valid_timespec start" "valid_timespec stop"
    and n: "0 \<le> elapsed_ns start stop" "elapsed_ns start stop \<le> 50000000"
  shows "\<exists>E. calculate_elapsed_time_us fp start stop = to_float fp E \<and> 0 \<le> E
           \<and> \<bar>E - of_int (elapsed_ns start stop) / 1000\<bar> \<le> 1 / 500000000"
proof -
  let ?r = "to_double fp"
  define S where "S = tv_sec stop - tv_sec start"
  define N where "N = tv_nsec stop - tv_nsec start"
  define a where "a = ?r (?r (of_int N) / 1000)"
  define y where "y = real_of_int (S * 1000000) + a"
  let ?D = "real_of_int (elapsed_ns start stop) / 1000"
  from v have N: "- 1000000000 < N" "N < 1000000000"
    by (simp_all add: valid_timespec_def N_def)
  have ns: "elapsed_ns start stop = S * 1000000000 + N"
    by (simp add: elapsed_ns_def S_def N_def)
  from n N have S: "S = 0 \<or> S = 1" unfolding ns by arith
  then have "\<bar>S\<bar> \<le> 2 ^ 53" and "\<bar>S * 1000000\<bar> \<le> 2 ^ 53" by auto
  from double_rounding_int [OF r this(1)] double_rounding_int [OF r this(2)]
  have "?r (?r (of_int S) * 1000000) = of_int (S * 1000000)" by simp
  then have E: "calculate_elapsed_time_us fp start stop = to_float fp (?r y)"
    by (simp add: calculate_elapsed_time_us_def y_def a_def S_def N_def)
  have D: "?D = real_of_int (S * 1000000) + real_of_int N / 1000"
    by (simp add: ns)
  from nsec_quotient_error [OF r N] have a: "\<bar>a - real_of_int N / 1000\<bar> \<le> 1 / 1000000000"
    by (simp add: a_def)
  then have yD: "\<bar>y - ?D\<bar> \<le> 1 / 1000000000" by (simp add: y_def D)
  show ?thesis
  proof (cases "elapsed_ns start stop = 0")
    case True
    with S N have "S = 0" and "N = 0" unfolding ns by arith+
    with double_rounding_int [OF r, of 0] have "y = 0" by (simp add: y_def a_def)
    with double_rounding_int [OF r, of 0] True have "?r y = 0" by simp
    with True E show ?thesis by (intro exI [of _ 0]) simp
  next
    case False
    with n have "1 \<le> elapsed_ns start stop" by simp
    then have "1 \<le> real_of_int (elapsed_ns start stop)" by linarith
    then have Dlo: "1 / 1000 \<le> ?D" by simp
    from n have "real_of_int (elapsed_ns start stop) \<le> 50000000" by linarith
    then have Dhi: "?D \<le> 50000" by simp
    from yD Dlo have "1 / 1024 \<le> y" by linarith
    then have ylo: "1 / 2 ^ 10 \<le> y" by simp
    from yD Dhi have yhi: "y \<le> 50001" by linarith
    from ylo yhi have "1 / 2 ^ 10 \<le> \<bar>y\<bar>" and "\<bar>y\<bar> \<le> 2 ^ 60" by simp_all
    from double_rounding_error [OF r this] have "\<bar>?r y - y\<bar> \<le> \<bar>y\<bar> / 2 ^ 52" .
    also from ylo yhi have "\<bar>y\<bar> / 2 ^ 52 \<le> 50001 / 2 ^ 52" by (simp add: divide_right_mono)
    also have "(50001 :: real) / 2 ^ 52 \<le> 1 / 1000000000" by simp
    finally have ry: "\<bar>?r y - y\<bar> \<le> 1 / 1000000000" .
    from ry yD have err: "\<bar>?r y - ?D\<bar> \<le> 1 / 500000000" by linarith
    with Dlo have "0 \<le> ?r y" by linarith
    with err E show ?thesis by blast
  qed
qed

text \<open>Lines 269 and 270 are monotone in the pulse duration.\<close>

lemma pulse_distance_monotone:
  assumes "rounding (to_double fp)" and "rounding (to_float fp)"
    and "0 \<le> d1" and "d1 \<le> d2" and "d2 \<le> 60000"
  shows "\<exists>x1 x2. pulse_distance_cm fp d1 = Some x1 \<and> pulse_distance_cm fp d2 = Some x2
           \<and> x1 \<le> x2"
proof -
  let ?y1 = "distance_float fp d1" and ?y2 = "distance_float fp d2"
  from assms have r1: "0 \<le> ?y1 \<and> ?y1 \<le> 30000"
    by (intro distance_float_range) simp_all
  from assms have r2: "0 \<le> ?y2 \<and> ?y2 \<le> 30000"
    by (intro distance_float_range) simp_all
  from assms have "?y1 \<le> ?y2"
    by (intro distance_float_mono) simp_all
  then have "\<lfloor>?y1\<rfloor> \<le> \<lfloor>?y2\<rfloor>" by (rule floor_mono)
  moreover from r1 have u1: "u16_of_float ?y1 = Some (word_of_int \<lfloor>?y1\<rfloor>)
      \<and> uint (word_of_int \<lfloor>?y1\<rfloor> :: u16) = \<lfloor>?y1\<rfloor>"
    by (intro u16_of_float_in_range) simp_all
  moreover from r2 have u2: "u16_of_float ?y2 = Some (word_of_int \<lfloor>?y2\<rfloor>)
      \<and> uint (word_of_int \<lfloor>?y2\<rfloor> :: u16) = \<lfloor>?y2\<rfloor>"
    by (intro u16_of_float_in_range) simp_all
  ultimately have "(word_of_int \<lfloor>?y1\<rfloor> :: u16) \<le> word_of_int \<lfloor>?y2\<rfloor>"
    by (simp add: word_le_def)
  with u1 u2 show ?thesis by (simp add: pulse_distance_cm_def)
qed

text \<open>
  C6. Two reads of the decoder in which both waits succeed, with timestamps as
  \<open>clock_gettime\<close> yields them: when the echo pulse of the first read (from its rising to
  its falling timestamp) is shorter than that of the second, and neither is negative
  or longer than 50 ms, both reads return 0 and the distance that the first writes is
  at most the distance that the second writes. This holds for every pair of roundings
  with the properties \<open>double_rounding\<close> and \<open>rounding\<close>.
\<close>

theorem distance_monotone_in_duration:
  assumes "double_rounding (to_double fp)" and "rounding (to_float fp)"
    and "valid_timespec rising1" and "valid_timespec falling1"
    and "valid_timespec rising2" and "valid_timespec falling2"
    and "0 \<le> elapsed_ns rising1 falling1"
    and "elapsed_ns rising1 falling1 < elapsed_ns rising2 falling2"
    and "elapsed_ns rising2 falling2 \<le> 50000000"
  shows "\<exists>x1 x2. ultrasonic_sensor_read fp (0, rising1) (0, falling1) v1 = Some (0, x1)
           \<and> ultrasonic_sensor_read fp (0, rising2) (0, falling2) v2 = Some (0, x2)
           \<and> x1 \<le> x2"
proof -
  let ?n1 = "elapsed_ns rising1 falling1" and ?n2 = "elapsed_ns rising2 falling2"
  let ?rf = "to_float fp"
  note rd = double_rounding_rounding [OF assms(1)]
  from assms have "0 \<le> ?n1" and "?n1 \<le> 50000000" by simp_all
  from elapsed_double_error [OF assms(1,3,4) this] obtain E1 where
    E1: "calculate_elapsed_time_us fp rising1 falling1 = ?rf E1" "0 \<le> E1"
      "\<bar>E1 - of_int ?n1 / 1000\<bar> \<le> 1 / 500000000" by blast
  from assms have "0 \<le> ?n2" and "?n2 \<le> 50000000" by simp_all
  from elapsed_double_error [OF assms(1,5,6) this] obtain E2 where
    E2: "calculate_elapsed_time_us fp rising2 falling2 = ?rf E2" "0 \<le> E2"
      "\<bar>E2 - of_int ?n2 / 1000\<bar> \<le> 1 / 500000000" by blast
  from assms(8) have "?n1 + 1 \<le> ?n2" by simp
  then have "real_of_int ?n1 + 1 \<le> real_of_int ?n2" by linarith
  then have "real_of_int ?n1 / 1000 + 1 / 1000 \<le> real_of_int ?n2 / 1000" by simp
  with E1(3) E2(3) have le: "E1 \<le> E2" by linarith
  from assms(9) have "real_of_int ?n2 \<le> 50000000" by linarith
  then have "real_of_int ?n2 / 1000 \<le> 50000" by simp
  with E2(3) have "E2 \<le> 60000" by linarith
  then have "E2 \<le> of_int 60000" by simp
  from rounding_range [OF assms(2) E2(2) this] have hi: "?rf E2 \<le> 60000" by simp
  from rounding_range [OF assms(2) E1(2), of 60000] le \<open>E2 \<le> of_int 60000\<close>
  have lo: "0 \<le> ?rf E1" by simp
  from rounding_mono [OF assms(2) le] have "?rf E1 \<le> ?rf E2" .
  from pulse_distance_monotone [OF rd assms(2) lo this hi] obtain x1 x2 where
    "pulse_distance_cm fp (?rf E1) = Some x1" "pulse_distance_cm fp (?rf E2) = Some x2" "x1 \<le> x2"
    by blast
  then show ?thesis by (simp add: ultrasonic_sensor_read_def E1(1) E2(1))
qed

lemma rounding_exact: "rounding (\<lambda>x. x)"
  by (simp add: rounding_def mono_def)

lemma exact_read:
  "ultrasonic_sensor_read fp_exact (0, start) (0, stop) v =
     (let d = real_of_int (elapsed_ns start stop) * 343 / 20000000
      in if -1 < d \<and> d < 65536
         then Some (0, word_of_int (if 0 \<le> d then \<lfloor>d\<rfloor> else \<lceil>d\<rceil>)) else None)"
  by (simp add: ultrasonic_sensor_read_def pulse_distance_cm_def distance_float_def
        calculate_elapsed_time_us_def fp_exact_def u16_of_float_def elapsed_ns_def
        SPEED_OF_SOUND_CM_PER_US_def Let_def field_simps)

theorem distance_monotone_in_duration_witness:
  "double_rounding (to_double fp_exact) \<and> rounding (to_float fp_exact)
   \<and> elapsed_ns \<lparr>tv_sec = 100, tv_nsec = 999990000\<rparr> \<lparr>tv_sec = 101, tv_nsec = 456000\<rparr> = 466000
   \<and> elapsed_ns \<lparr>tv_sec = 200, tv_nsec = 0\<rparr> \<lparr>tv_sec = 200, tv_nsec = 875000\<rparr> = 875000
   \<and> ultrasonic_sensor_read fp_exact
        (0, \<lparr>tv_sec = 100, tv_nsec = 999990000\<rparr>) (0, \<lparr>tv_sec = 101, tv_nsec = 456000\<rparr>) 0
      = Some (0, 7)
   \<and> ultrasonic_sensor_read fp_exact
        (0, \<lparr>tv_sec = 200, tv_nsec = 0\<rparr>) (0, \<lparr>tv_sec = 200, tv_nsec = 875000\<rparr>) 0
      = Some (0, 15)
   \<and> (7 :: u16) \<le> 15"
proof -
  let ?r1 = "\<lparr>tv_sec = 100, tv_nsec = 999990000\<rparr>" and ?f1 = "\<lparr>tv_sec = 101, tv_nsec = 456000\<rparr>"
  let ?r2 = "\<lparr>tv_sec = 200, tv_nsec = 0\<rparr>" and ?f2 = "\<lparr>tv_sec = 200, tv_nsec = 875000\<rparr>"
  have r: "double_rounding (to_double fp_exact)" "rounding (to_float fp_exact)"
    by (simp_all add: fp_exact_def rounding_exact double_rounding_exact)
  have t: "valid_timespec ?r1" "valid_timespec ?f1" "valid_timespec ?r2" "valid_timespec ?f2"
    by (simp_all add: valid_timespec_def)
  have n: "elapsed_ns ?r1 ?f1 = 466000" "elapsed_ns ?r2 ?f2 = 875000"
    by (simp_all add: elapsed_ns_def)
  have h: "0 \<le> elapsed_ns ?r1 ?f1" "elapsed_ns ?r1 ?f1 < elapsed_ns ?r2 ?f2"
      "elapsed_ns ?r2 ?f2 \<le> 50000000"
    by (simp_all add: n)
  have v: "ultrasonic_sensor_read fp_exact (0, ?r1) (0, ?f1) 0 = Some (0, 7)"
      "ultrasonic_sensor_read fp_exact (0, ?r2) (0, ?f2) 0 = Some (0, 15)"
    by (simp_all add: exact_read n)
  from distance_monotone_in_duration [OF r t h, of 0 0] v have "(7 :: u16) \<le> 15"
    by simp
  with r n v show ?thesis by simp
qed

end
